theory Spec2Isabelle
  imports Main
begin

section \<open>Proxy Manager Tray: a shallow embedding of proxy/proxy_tray.py\<close>

subsection \<open>Python strings\<close>

text \<open>
  A Python 3 \<open>str\<close> is a sequence of Unicode code points, and \<open>len\<close> and \<open>strip\<close>
  work on code points. A string is therefore a list of code points; \<open>str\<close> turns an
  ASCII literal into one.
\<close>

type_synonym pystr = "nat list"

definition str :: "string \<Rightarrow> pystr" where
  "str cs = map of_char cs"

text \<open>
  The code points \<open>str.strip()\<close> removes: the ones Python's \<open>str.isspace\<close> accepts.
\<close>

definition isspace :: "nat \<Rightarrow> bool" where
  "isspace c \<longleftrightarrow>
     (9 \<le> c \<and> c \<le> 13) \<or> (28 \<le> c \<and> c \<le> 32) \<or> c = 133 \<or> c = 160 \<or> c = 5760 \<or>
     (8192 \<le> c \<and> c \<le> 8202) \<or> c = 8232 \<or> c = 8233 \<or> c = 8239 \<or> c = 8287 \<or> c = 12288"

definition strip :: "pystr \<Rightarrow> pystr" where
  "strip s = rev (dropWhile isspace (rev (dropWhile isspace s)))"

text \<open>The decimal text of a natural number, as an f-string prints a line number.\<close>

definition digit :: "nat \<Rightarrow> nat" where
  "digit d = 48 + d"

fun str_of_nat :: "nat \<Rightarrow> pystr" where
  "str_of_nat n = (if n < 10 then [digit n] else str_of_nat (n div 10) @ [digit (n mod 10)])"

declare str_of_nat.simps [simp del]

subsection \<open>Proxy records, exceptions, the outside world\<close>

text \<open>
  A proxy record is a Python dict with string keys. The catalog format gives every field
  a string value, and the model keeps that; which keys are present is not assumed, so a
  subscript \<open>d["ip"]\<close> can raise \<open>KeyError\<close>. The association list holds the items in
  insertion order.
\<close>

type_synonym dict = "(pystr \<times> pystr) list"

datatype exn =
    KeyError pystr
  | CalledProcessError int
  | TimeoutExpired
  | OSError
  | ValueError

definition getitem :: "dict \<Rightarrow> pystr \<Rightarrow> exn + pystr" where
  "getitem d k = (case map_of d k of None \<Rightarrow> Inl (KeyError k) | Some v \<Rightarrow> Inr v)"

definition get_default :: "dict \<Rightarrow> pystr \<Rightarrow> pystr \<Rightarrow> pystr" where
  "get_default d k dflt = (case map_of d k of None \<Rightarrow> dflt | Some v \<Rightarrow> v)"

text \<open>
  What \<open>json.load\<close> delivers for proxies.json: a list of records, or a value that is
  not a list. What an external process does: it exits with a return code and the text it
  wrote to stdout, or launching or waiting for it raises (missing tool: \<open>OSError\<close>;
  timeout: \<open>TimeoutExpired\<close>; undecodable output: \<open>ValueError\<close>).
\<close>

datatype json = NotAList | JList "dict list"

datatype proc = Exited int pystr | Failed exn

text \<open>
  Everything observable the program does to the outside is an event of the trace: an
  external command it runs, a desktop notification (title, body, urgency) it sends, the
  stop of the tray icon.
\<close>

datatype event =
    Run "pystr list"
  | Notify pystr pystr pystr
  | IconStop

text \<open>
  The world the program runs in:
  \<^item> \<open>proxies_json\<close>: the outcome of opening proxies.json and parsing it;
  \<^item> \<open>proxy_txt\<close>: the outcome of opening proxy.txt, and then the lines the iteration
    delivers (each with its line end) and the exception that ends it early, if any;
  \<^item> \<open>ext\<close>: what the external command with the given argument vector does, after the
    events so far;
  \<^item> \<open>exc_str\<close>: Python's \<open>str()\<close> of an exception, the body of error notifications.
\<close>

record world =
  proxies_json :: "exn + json"
  proxy_txt :: "exn + (pystr list \<times> exn option)"
  ext :: "event list \<Rightarrow> pystr list \<Rightarrow> proc"
  exc_str :: "exn \<Rightarrow> pystr"

subsection \<open>Constants\<close>

definition PROXY_CMD :: pystr where
  "PROXY_CMD = str ''/usr/local/sbin/proxyredsocks''"

definition PROXY_PORT :: pystr where
  "PROXY_PORT = str ''3128''"

type_synonym rgb = "nat \<times> nat \<times> nat"

definition CLR_PROXY :: rgb where "CLR_PROXY = (41, 121, 255)"
definition CLR_REDSOCKS :: rgb where "CLR_REDSOCKS = (0, 200, 83)"
definition CLR_BOTH :: rgb where "CLR_BOTH = (156, 39, 176)"
definition CLR_OFF :: rgb where "CLR_OFF = (120, 120, 120)"

subsection \<open>The manager, the tray icon, the state\<close>

text \<open>
  The picture \<open>_render_icon\<close> draws is fixed by the fill colour of the circle, the label
  and the font size; the image is modelled by these three.
\<close>

record image =
  bg :: rgb
  label :: pystr
  fsize :: nat

text \<open>
  \<open>manager\<close> holds the attributes of \<open>ProxyManager\<close>; \<open>sys\<close> adds the two
  attributes of the tray icon the program assigns, and the trace of events.
\<close>

record manager =
  running :: bool
  proxy_selection :: dict
  redsocks_selection :: dict

record sys = manager +
  icon_icon :: image
  icon_title :: pystr
  trace :: "event list"

text \<open>
  A statement either returns a value or raises, and changes the state either way.
\<close>

type_synonym 'a res = "(exn + 'a) \<times> sys"

definition ret :: "'a \<Rightarrow> sys \<Rightarrow> 'a res" where
  "ret x s = (Inr x, s)"

definition bindM :: "(sys \<Rightarrow> 'a res) \<Rightarrow> ('a \<Rightarrow> sys \<Rightarrow> 'b res) \<Rightarrow> sys \<Rightarrow> 'b res" where
  "bindM m f s = (case m s of (Inl e, s') \<Rightarrow> (Inl e, s') | (Inr x, s') \<Rightarrow> f x s')"

text \<open>\<open>try: m  except Exception as exc: h exc\<close>\<close>

definition try_except :: "(sys \<Rightarrow> 'a res) \<Rightarrow> (exn \<Rightarrow> sys \<Rightarrow> 'a res) \<Rightarrow> sys \<Rightarrow> 'a res" where
  "try_except m h s = (case m s of (Inl e, s') \<Rightarrow> h e s' | (Inr x, s') \<Rightarrow> (Inr x, s'))"

text \<open>A pure computation that may raise, run as a statement.\<close>

definition lift :: "exn + 'a \<Rightarrow> sys \<Rightarrow> 'a res" where
  "lift r s = (r, s)"

subsection \<open>Data helpers\<close>

text \<open>
  \<open>_load_proxies\<close>. The body of the first \<open>try\<close> block: it raises what opening
  or parsing raises, and yields the parsed list when that is a non-empty list, the
  initial \<open>[]\<close> otherwise. The handler is \<open>pass\<close>, which leaves \<open>proxies = []\<close>.
\<close>

definition json_body :: "world \<Rightarrow> exn + dict list" where
  "json_body w =
     (case proxies_json w of
        Inl e \<Rightarrow> Inl e
      | Inr NotAList \<Rightarrow> Inr []
      | Inr (JList data) \<Rightarrow> (if data \<noteq> [] then Inr data else Inr []))"

definition load_json :: "world \<Rightarrow> dict list" where
  "load_json w = (case json_body w of Inl e \<Rightarrow> [] | Inr proxies \<Rightarrow> proxies)"

definition txt_entry :: "nat \<Rightarrow> pystr \<Rightarrow> dict" where
  "txt_entry i ip =
     [(str ''name'', str ''Proxy '' @ str_of_nat i),
      (str ''ip'', ip),
      (str ''user'', str ''edcguest''),
      (str ''password'', str ''edcguest'')]"

text \<open>
  The loop \<open>for i, line in enumerate(fh, 1)\<close>: \<open>i\<close> is the number of the line read,
  \<open>proxies\<close> the list appended to.
\<close>

fun txt_loop :: "nat \<Rightarrow> pystr list \<Rightarrow> dict list \<Rightarrow> dict list" where
  "txt_loop i [] proxies = proxies"
| "txt_loop i (line # rest) proxies =
     (let ip = strip line
      in if ip \<noteq> [] then txt_loop (Suc i) rest (proxies @ [txt_entry i ip])
         else txt_loop (Suc i) rest proxies)"

text \<open>
  The body of the second \<open>try\<close> block: the exception it ends with, if any, and the
  list \<open>proxies\<close> as it is then (the appends made before an exception stay). The
  handler is \<open>pass\<close> again.
\<close>

definition txt_body :: "world \<Rightarrow> dict list \<Rightarrow> exn option \<times> dict list" where
  "txt_body w proxies =
     (case proxy_txt w of
        Inl e \<Rightarrow> (Some e, proxies)
      | Inr (lines, err) \<Rightarrow> (err, txt_loop 1 lines proxies))"

definition load_txt :: "world \<Rightarrow> dict list \<Rightarrow> dict list" where
  "load_txt w proxies =
     (case txt_body w proxies of (Some e, proxies') \<Rightarrow> proxies' | (None, proxies') \<Rightarrow> proxies')"

definition load_proxies :: "world \<Rightarrow> exn + dict list" where
  "load_proxies w =
     (let proxies = load_json w
      in if proxies = [] then Inr (load_txt w proxies) else Inr proxies)"

definition fallback_proxy :: dict where
  "fallback_proxy =
     [(str ''name'', str ''Default''),
      (str ''ip'', str ''172.16.x.x''),
      (str ''user'', str ''edcguest''),
      (str ''password'', str ''edcguest'')]"

definition initial_proxy :: "world \<Rightarrow> exn + dict" where
  "initial_proxy w =
     (case load_proxies w of
        Inl e \<Rightarrow> Inl e
      | Inr [] \<Rightarrow> Inr fallback_proxy
      | Inr (first # others) \<Rightarrow> Inr first)"

text \<open>\<open>ProxyManager.__init__\<close>: both selections are copies of the initial record.\<close>

definition init :: "world \<Rightarrow> exn + manager" where
  "init w =
     (case initial_proxy w of
        Inl e \<Rightarrow> Inl e
      | Inr initial \<Rightarrow>
          Inr \<lparr>running = True, proxy_selection = initial, redsocks_selection = initial\<rparr>)"

subsection \<open>External commands and notifications\<close>

text \<open>
  \<open>subprocess.run(args, check=..., timeout=...)\<close>: the command is recorded in the
  trace; what it does is the world's answer. With \<open>check=True\<close> a return code other
  than 0 raises \<open>CalledProcessError\<close>. The result is the return code and stdout.
\<close>

definition subprocess_run :: "world \<Rightarrow> pystr list \<Rightarrow> bool \<Rightarrow> sys \<Rightarrow> (int \<times> pystr) res" where
  "subprocess_run w args chk s =
     (let s' = s\<lparr>trace := trace s @ [Run args]\<rparr>
      in case ext w (trace s) args of
           Failed e \<Rightarrow> (Inl e, s')
         | Exited rc out \<Rightarrow>
             (if chk \<and> rc \<noteq> 0 then (Inl (CalledProcessError rc), s') else (Inr (rc, out), s')))"

text \<open>\<open>subprocess.check_call(args, timeout=...)\<close>\<close>

definition check_call :: "world \<Rightarrow> pystr list \<Rightarrow> sys \<Rightarrow> int res" where
  "check_call w args = bindM (subprocess_run w args True) (\<lambda>r. ret 0)"

text \<open>
  \<open>_notify\<close>: fire and forget; whatever launching notify-send raises is swallowed.
\<close>

definition notify :: "pystr \<Rightarrow> pystr \<Rightarrow> pystr \<Rightarrow> sys \<Rightarrow> unit res" where
  "notify title body urgency s = (Inr (), s\<lparr>trace := trace s @ [Notify title body urgency]\<rparr>)"

subsection \<open>Status queries\<close>

definition systemctl_is_active :: "pystr list" where
  "systemctl_is_active = [str ''systemctl'', str ''is-active'', str ''--quiet'', str ''redsocks'']"

definition kreadconfig6_ProxyType :: "pystr list" where
  "kreadconfig6_ProxyType =
     [str ''kreadconfig6'', str ''--file'', str ''kioslaverc'',
      str ''--group'', str ''Proxy Settings'', str ''--key'', str ''ProxyType'']"

definition is_redsocks_on :: "world \<Rightarrow> sys \<Rightarrow> bool res" where
  "is_redsocks_on w =
     try_except
       (bindM (check_call w systemctl_is_active) (\<lambda>r. ret True))
       (\<lambda>exc. ret False)"

definition is_proxy_on :: "world \<Rightarrow> sys \<Rightarrow> bool res" where
  "is_proxy_on w =
     try_except
       (bindM (subprocess_run w kreadconfig6_ProxyType False)
          (\<lambda>(rc, out). ret (strip out = str ''1'')))
       (\<lambda>exc. ret False)"

subsection \<open>Icon rendering\<close>

text \<open>
  The \<open>if\<close>/\<open>elif\<close> chain of \<open>_render_icon\<close> that picks the colour and the label; the
  label of the last branch is the en dash, U+2013.
\<close>

definition icon_style :: "bool \<Rightarrow> bool \<Rightarrow> rgb \<times> pystr" where
  "icon_style proxy redsocks =
     (if proxy \<and> redsocks then (CLR_BOTH, str ''PR'')
      else if redsocks then (CLR_REDSOCKS, str ''R'')
      else if proxy then (CLR_PROXY, str ''P'')
      else (CLR_OFF, [8211]))"

definition draw :: "rgb \<times> pystr \<Rightarrow> image" where
  "draw style =
     (case style of (colour, lbl) \<Rightarrow>
        \<lparr>bg = colour, label = lbl, fsize = (if length lbl > 1 then 20 else 30)\<rparr>)"

definition render_icon :: "world \<Rightarrow> sys \<Rightarrow> image res" where
  "render_icon w =
     bindM (is_proxy_on w) (\<lambda>proxy.
     bindM (is_redsocks_on w) (\<lambda>redsocks.
     ret (draw (icon_style proxy redsocks))))"

text \<open>A subscript on one of the two selections, read when the statement runs.\<close>

definition sel_item :: "(sys \<Rightarrow> dict) \<Rightarrow> pystr \<Rightarrow> sys \<Rightarrow> pystr res" where
  "sel_item sel k s = (getitem (sel s) k, s)"

definition on_off :: "bool \<Rightarrow> pystr" where
  "on_off b = (if b then str ''ON'' else str ''OFF'')"

definition tooltip :: "world \<Rightarrow> sys \<Rightarrow> pystr res" where
  "tooltip w =
     bindM (is_proxy_on w) (\<lambda>p.
     bindM (is_redsocks_on w) (\<lambda>r.
     bindM (sel_item proxy_selection (str ''ip'')) (\<lambda>pip.
     bindM (sel_item redsocks_selection (str ''ip'')) (\<lambda>rip.
     ret (str ''Proxy: '' @ on_off p @ str '' ('' @ pip @ str '')  |  '' @
          str ''Redsocks: '' @ on_off r @ str '' ('' @ rip @ str '')'')))))"

subsection \<open>Refresh\<close>

definition set_icon :: "image \<Rightarrow> sys \<Rightarrow> unit res" where
  "set_icon img s = (Inr (), s\<lparr>icon_icon := img\<rparr>)"

definition set_title :: "pystr \<Rightarrow> sys \<Rightarrow> unit res" where
  "set_title t s = (Inr (), s\<lparr>icon_title := t\<rparr>)"

definition refresh :: "world \<Rightarrow> sys \<Rightarrow> unit res" where
  "refresh w =
     bindM (render_icon w) (\<lambda>img.
     bindM (set_icon img) (\<lambda>u.
     bindM (tooltip w) (\<lambda>t.
     set_title t)))"

subsection \<open>Actions: system proxy\<close>

definition proxy_url :: "dict \<Rightarrow> pystr \<Rightarrow> pystr" where
  "proxy_url sel ip =
     (let user = get_default sel (str ''user'') [];
          passwd = get_default sel (str ''password'') []
      in if user \<noteq> []
         then str ''http://'' @ user @ str '':'' @ passwd @ str ''@'' @ ip @ str '':'' @ PROXY_PORT
         else str ''http://'' @ ip @ str '':'' @ PROXY_PORT)"

text \<open>The items of the dict \<open>settings\<close>, in insertion order.\<close>

definition settings :: "pystr \<Rightarrow> (pystr \<times> pystr) list" where
  "settings url =
     [(str ''ProxyType'', str ''1''),
      (str ''httpProxy'', url),
      (str ''httpsProxy'', url),
      (str ''ftpProxy'', url),
      (str ''NoProxyFor'', str ''localhost,127.0.0.0/8,10.0.0.0/8,172.16.0.0/12,192.168.0.0/16'')]"

definition kwriteconfig6 :: "pystr \<times> pystr \<Rightarrow> pystr list" where
  "kwriteconfig6 kv =
     (case kv of (k, v) \<Rightarrow>
        [str ''kwriteconfig6'', str ''--file'', str ''kioslaverc'',
         str ''--group'', str ''Proxy Settings'', str ''--key'', k, v])"

text \<open>
  The loop \<open>for key, val in settings.items()\<close> with \<open>check=True\<close>: an exception of
  one write leaves the loop.
\<close>

fun write_settings :: "world \<Rightarrow> (pystr \<times> pystr) list \<Rightarrow> sys \<Rightarrow> unit res" where
  "write_settings w [] s = (Inr (), s)"
| "write_settings w (kv # rest) s =
     (case subprocess_run w (kwriteconfig6 kv) True s of
        (Inl e, s') \<Rightarrow> (Inl e, s')
      | (Inr r, s') \<Rightarrow> write_settings w rest s')"

text \<open>The arrow of the notification bodies is U+2192.\<close>

definition enable_proxy :: "world \<Rightarrow> sys \<Rightarrow> unit res" where
  "enable_proxy w =
     bindM (sel_item proxy_selection (str ''ip'')) (\<lambda>ip.
     bindM (\<lambda>s. ret (proxy_url (proxy_selection s) ip) s) (\<lambda>url.
     bindM
       (try_except
          (bindM (write_settings w (settings url)) (\<lambda>u.
           bindM (sel_item proxy_selection (str ''name'')) (\<lambda>name.
           notify (str ''Proxy ON'')
             (str ''System proxy '' @ [8594] @ str '' '' @ name @ str '' ('' @ ip @ str '':'' @
              PROXY_PORT @ str '')'')
             (str ''normal''))))
          (\<lambda>exc. notify (str ''Proxy Error'') (exc_str w exc) (str ''critical'')))
       (\<lambda>u. refresh w)))"

definition disable_proxy :: "world \<Rightarrow> sys \<Rightarrow> unit res" where
  "disable_proxy w =
     bindM
       (try_except
          (bindM (subprocess_run w (kwriteconfig6 (str ''ProxyType'', str ''0'')) True) (\<lambda>r.
           notify (str ''Proxy OFF'') (str ''System proxy disabled'') (str ''normal'')))
          (\<lambda>exc. notify (str ''Proxy Error'') (exc_str w exc) (str ''critical'')))
       (\<lambda>u. refresh w)"

subsection \<open>Actions: redsocks\<close>

definition enable_redsocks :: "world \<Rightarrow> sys \<Rightarrow> unit res" where
  "enable_redsocks w =
     bindM (sel_item redsocks_selection (str ''ip'')) (\<lambda>ip.
     bindM
       (try_except
          (bindM (subprocess_run w [str ''pkexec'', PROXY_CMD, str ''enable'', ip] True) (\<lambda>r.
           bindM (sel_item redsocks_selection (str ''name'')) (\<lambda>name.
           notify (str ''Redsocks ON'')
             (str ''Transparent proxy via '' @ name @ str '' ('' @ ip @ str '')'')
             (str ''normal''))))
          (\<lambda>exc. notify (str ''Redsocks Error'') (exc_str w exc) (str ''critical'')))
       (\<lambda>u. refresh w))"

definition disable_redsocks :: "world \<Rightarrow> sys \<Rightarrow> unit res" where
  "disable_redsocks w =
     bindM
       (try_except
          (bindM (subprocess_run w [str ''pkexec'', PROXY_CMD, str ''disable''] True) (\<lambda>r.
           notify (str ''Redsocks OFF'') (str ''Transparent proxy disabled'') (str ''normal'')))
          (\<lambda>exc. notify (str ''Redsocks Error'') (exc_str w exc) (str ''critical'')))
       (\<lambda>u. refresh w)"

subsection \<open>Actions: change proxy\<close>

text \<open>
  The loop of \<open>_pick_proxy\<close> that builds the radio list: tag, label and on/off for each
  record. It stands before the \<open>try\<close>, so a missing key raises out of \<open>_pick_proxy\<close>.
\<close>

fun radio_entries :: "dict \<Rightarrow> dict list \<Rightarrow> exn + pystr list" where
  "radio_entries cur [] = Inr []"
| "radio_entries cur (p # ps) =
     (case getitem p (str ''ip'') of
        Inl e \<Rightarrow> Inl e
      | Inr tag \<Rightarrow>
          (case getitem p (str ''name'') of
             Inl e \<Rightarrow> Inl e
           | Inr name \<Rightarrow>
               (case getitem cur (str ''ip'') of
                  Inl e \<Rightarrow> Inl e
                | Inr cur_ip \<Rightarrow>
                    (case radio_entries cur ps of
                       Inl e \<Rightarrow> Inl e
                     | Inr tail \<Rightarrow>
                         Inr ([tag, name @ str ''  ('' @ tag @ str '')'',
                               if tag = cur_ip then str ''on'' else str ''off''] @ tail)))))"

text \<open>The dots of the custom entry are the ellipsis, U+2026.\<close>

definition radiolist_args :: "pystr \<Rightarrow> dict \<Rightarrow> dict list \<Rightarrow> exn + pystr list" where
  "radiolist_args title cur proxies =
     (case radio_entries cur proxies of
        Inl e \<Rightarrow> Inl e
      | Inr entries \<Rightarrow>
          Inr ([str ''kdialog'', str ''--title'', title,
                str ''--radiolist'', str ''Select a proxy server:''] @ entries @
               [str ''__custom__'', str ''Enter custom IP'' @ [8230], str ''off'']))"

definition inputbox_args :: "pystr \<Rightarrow> pystr list" where
  "inputbox_args cur_ip =
     [str ''kdialog'', str ''--title'', str ''Custom Proxy IP'',
      str ''--inputbox'', str ''Enter proxy IP address:'', cur_ip]"

definition custom_proxy :: "pystr \<Rightarrow> dict" where
  "custom_proxy ip =
     [(str ''name'', str ''Custom''),
      (str ''ip'', ip),
      (str ''user'', str ''edcguest''),
      (str ''password'', str ''edcguest'')]"

text \<open>
  The loop \<open>for p in proxies: if p["ip"] == choice: return p\<close>; \<open>None\<close> stands for
  the loop running to its end.
\<close>

fun find_choice :: "pystr \<Rightarrow> dict list \<Rightarrow> exn + dict option" where
  "find_choice choice [] = Inr None"
| "find_choice choice (p # ps) =
     (case getitem p (str ''ip'') of
        Inl e \<Rightarrow> Inl e
      | Inr ip \<Rightarrow> (if ip = choice then Inr (Some p) else find_choice choice ps))"

text \<open>The body of the \<open>try\<close> block of \<open>_pick_proxy\<close>.\<close>

definition pick_body :: "world \<Rightarrow> pystr list \<Rightarrow> dict \<Rightarrow> dict list \<Rightarrow> sys \<Rightarrow> dict option res" where
  "pick_body w args cur proxies =
     bindM (subprocess_run w args False) (\<lambda>(rc, out).
       if rc \<noteq> 0 then ret None
       else
         let choice = strip out
         in if choice = str ''__custom__''
            then
              bindM (lift (getitem cur (str ''ip''))) (\<lambda>cur_ip.
              bindM (subprocess_run w (inputbox_args cur_ip) False) (\<lambda>(rc2, out2).
                if rc2 \<noteq> 0 \<or> strip out2 = [] then ret None
                else ret (Some (custom_proxy (strip out2)))))
            else lift (find_choice choice proxies))"

definition pick_proxy :: "world \<Rightarrow> pystr \<Rightarrow> dict \<Rightarrow> sys \<Rightarrow> dict option res" where
  "pick_proxy w title cur =
     bindM (lift (load_proxies w)) (\<lambda>proxies.
       if proxies = []
       then
         bindM (notify (str ''No Proxies'') (str ''proxies.json is empty or missing'')
                  (str ''critical''))
           (\<lambda>u. ret None)
       else
         bindM (lift (radiolist_args title cur proxies)) (\<lambda>args.
         try_except (pick_body w args cur proxies)
           (\<lambda>exc. bindM (notify (str ''Error'') (exc_str w exc) (str ''critical''))
              (\<lambda>u. ret None))))"

text \<open>
  \<open>if result:\<close> holds for a dict that is not empty.
\<close>

definition change_proxy :: "world \<Rightarrow> sys \<Rightarrow> unit res" where
  "change_proxy w =
     bindM (\<lambda>s. pick_proxy w (str ''Change System Proxy'') (proxy_selection s) s) (\<lambda>result.
     bindM
       (case result of
          None \<Rightarrow> ret ()
        | Some r \<Rightarrow>
            if r \<noteq> [] then
              bindM (\<lambda>s. (Inr (), s\<lparr>proxy_selection := r\<rparr>)) (\<lambda>u.
              bindM (lift (getitem r (str ''name''))) (\<lambda>name.
              bindM (lift (getitem r (str ''ip''))) (\<lambda>ip.
              notify (str ''Proxy Changed'')
                (str ''System proxy '' @ [8594] @ str '' '' @ name @ str '' ('' @ ip @ str '')'')
                (str ''normal''))))
            else ret ())
       (\<lambda>u. refresh w))"

definition change_redsocks_proxy :: "world \<Rightarrow> sys \<Rightarrow> unit res" where
  "change_redsocks_proxy w =
     bindM (\<lambda>s. pick_proxy w (str ''Change Redsocks Proxy'') (redsocks_selection s) s) (\<lambda>result.
     bindM
       (case result of
          None \<Rightarrow> ret ()
        | Some r \<Rightarrow>
            if r \<noteq> [] then
              bindM (\<lambda>s. (Inr (), s\<lparr>redsocks_selection := r\<rparr>)) (\<lambda>u.
              bindM (lift (getitem r (str ''name''))) (\<lambda>name.
              bindM (lift (getitem r (str ''ip''))) (\<lambda>ip.
              notify (str ''Redsocks Proxy Changed'')
                (str ''Redsocks proxy '' @ [8594] @ str '' '' @ name @ str '' ('' @ ip @ str '')'')
                (str ''normal''))))
            else ret ())
       (\<lambda>u. refresh w))"

subsection \<open>Quit, the menu, the monitor\<close>

definition quit :: "sys \<Rightarrow> unit res" where
  "quit s = (Inr (), s\<lparr>running := False, trace := trace s @ [IconStop]\<rparr>)"

text \<open>The action entries of \<open>_build_menu\<close> and the callbacks they are wired to.\<close>

datatype action =
    EnableProxy | DisableProxy | ChangeProxy
  | EnableRedsocks | DisableRedsocks | ChangeRedsocksProxy
  | Quit

fun menu :: "world \<Rightarrow> action \<Rightarrow> sys \<Rightarrow> unit res" where
  "menu w EnableProxy = enable_proxy w"
| "menu w DisableProxy = disable_proxy w"
| "menu w ChangeProxy = change_proxy w"
| "menu w EnableRedsocks = enable_redsocks w"
| "menu w DisableRedsocks = disable_redsocks w"
| "menu w ChangeRedsocksProxy = change_redsocks_proxy w"
| "menu w Quit = quit"

text \<open>
  \<open>_monitor\<close>: one pass of the loop body refreshes and swallows an exception. The loop
  runs while \<open>_running\<close> holds, which only \<open>_quit\<close> ends, from the other thread;
  \<open>monitor w n\<close> is the state after at most \<open>n\<close> passes.
\<close>

definition monitor_pass :: "world \<Rightarrow> sys \<Rightarrow> unit res" where
  "monitor_pass w = try_except (refresh w) (\<lambda>exc. ret ())"

fun monitor :: "world \<Rightarrow> nat \<Rightarrow> sys \<Rightarrow> sys" where
  "monitor w 0 s = s"
| "monitor w (Suc n) s =
     (if running s then monitor w n (snd (monitor_pass w s)) else s)"

section \<open>Notions the properties are stated with\<close>

text \<open>The answers of the two status commands after the events \<open>tr\<close>.\<close>

definition probe_proxy :: "world \<Rightarrow> event list \<Rightarrow> bool" where
  "probe_proxy w tr =
     (case ext w tr kreadconfig6_ProxyType of
        Exited rc out \<Rightarrow> strip out = str ''1''
      | Failed e \<Rightarrow> False)"

definition probe_redsocks :: "world \<Rightarrow> event list \<Rightarrow> bool" where
  "probe_redsocks w tr =
     (case ext w tr systemctl_is_active of
        Exited rc out \<Rightarrow> rc = 0
      | Failed e \<Rightarrow> False)"

text \<open>The events of one pass of the two probes.\<close>

definition probe_events :: "event list" where
  "probe_events = [Run kreadconfig6_ProxyType, Run systemctl_is_active]"

text \<open>The notifications of a trace, in order.\<close>

fun is_notify :: "event \<Rightarrow> bool" where
  "is_notify (Notify title body urgency) = True"
| "is_notify (Run args) = False"
| "is_notify IconStop = False"

definition notifications :: "event list \<Rightarrow> event list" where
  "notifications tr = filter is_notify tr"

text \<open>
  The first call that fails when the commands \<open>cs\<close> are run one after the other with
  \<open>check=True\<close>, starting after the events \<open>tr\<close>: its position and the exception it
  raises. \<open>None\<close>: every command exits with 0.
\<close>

fun first_failure :: "world \<Rightarrow> event list \<Rightarrow> pystr list list \<Rightarrow> (nat \<times> exn) option" where
  "first_failure w tr [] = None"
| "first_failure w tr (c # cs) =
     (case ext w tr c of
        Failed e \<Rightarrow> Some (0, e)
      | Exited rc out \<Rightarrow>
          if rc \<noteq> 0 then Some (0, CalledProcessError rc)
          else map_option (\<lambda>(i, e). (Suc i, e)) (first_failure w (tr @ [Run c]) cs))"

text \<open>
  The external calls of the four mutations, in order, for the selection of the state, and
  the title of their error notification. An enable action whose selection has no \<open>ip\<close>
  raises before it calls anything.
\<close>

fun mutation_cmds :: "action \<Rightarrow> sys \<Rightarrow> pystr list list" where
  "mutation_cmds EnableProxy s =
     (case getitem (proxy_selection s) (str ''ip'') of
        Inl e \<Rightarrow> []
      | Inr ip \<Rightarrow> map kwriteconfig6 (settings (proxy_url (proxy_selection s) ip)))"
| "mutation_cmds DisableProxy s = [kwriteconfig6 (str ''ProxyType'', str ''0'')]"
| "mutation_cmds EnableRedsocks s =
     (case getitem (redsocks_selection s) (str ''ip'') of
        Inl e \<Rightarrow> []
      | Inr ip \<Rightarrow> [[str ''pkexec'', PROXY_CMD, str ''enable'', ip]])"
| "mutation_cmds DisableRedsocks s = [[str ''pkexec'', PROXY_CMD, str ''disable'']]"
| "mutation_cmds a s = []"

fun error_title :: "action \<Rightarrow> pystr" where
  "error_title EnableRedsocks = str ''Redsocks Error''"
| "error_title DisableRedsocks = str ''Redsocks Error''"
| "error_title a = str ''Proxy Error''"

text \<open>
  The radio list dialog of the picker, when the picker gets as far as showing it: the
  catalog, the argument vector, and what the dialog does.
\<close>

definition radiolist_step ::
    "world \<Rightarrow> pystr \<Rightarrow> dict \<Rightarrow> event list \<Rightarrow> (dict list \<times> pystr list \<times> proc) option" where
  "radiolist_step w title cur tr =
     (case load_proxies w of
        Inl e \<Rightarrow> None
      | Inr proxies \<Rightarrow>
          if proxies = [] then None
          else (case radiolist_args title cur proxies of
                  Inl e \<Rightarrow> None
                | Inr args \<Rightarrow> Some (proxies, args, ext w tr args)))"

text \<open>Cancellation at the radio list: the dialog exits with a return code other than 0.\<close>

definition cancelled_at_list :: "world \<Rightarrow> pystr \<Rightarrow> dict \<Rightarrow> event list \<Rightarrow> bool" where
  "cancelled_at_list w title cur tr =
     (case radiolist_step w title cur tr of
        Some (proxies, args, Exited rc out) \<Rightarrow> rc \<noteq> 0
      | _ \<Rightarrow> False)"

text \<open>
  Cancellation at the custom entry: the radio list returns the custom tag, and the input
  box exits with a return code other than 0 or with blank input.
\<close>

definition cancelled_at_custom :: "world \<Rightarrow> pystr \<Rightarrow> dict \<Rightarrow> event list \<Rightarrow> bool" where
  "cancelled_at_custom w title cur tr =
     (case radiolist_step w title cur tr of
        Some (proxies, args, Exited rc out) \<Rightarrow>
          rc = 0 \<and> strip out = str ''__custom__'' \<and>
          (case getitem cur (str ''ip'') of
             Inl e \<Rightarrow> False
           | Inr cur_ip \<Rightarrow>
               (case ext w (tr @ [Run args]) (inputbox_args cur_ip) of
                  Exited rc2 out2 \<Rightarrow> rc2 \<noteq> 0 \<or> strip out2 = []
                | Failed e \<Rightarrow> False))
      | _ \<Rightarrow> False)"

text \<open>
  The radio list returns a tag that is not the custom tag and is the address of no record
  of the catalog.
\<close>

definition unmatched_tag :: "world \<Rightarrow> pystr \<Rightarrow> dict \<Rightarrow> event list \<Rightarrow> bool" where
  "unmatched_tag w title cur tr =
     (case radiolist_step w title cur tr of
        Some (proxies, args, Exited rc out) \<Rightarrow>
          rc = 0 \<and> strip out \<noteq> str ''__custom__'' \<and>
          list_all (\<lambda>p. getitem p (str ''ip'') \<noteq> Inr (strip out)) proxies
      | _ \<Rightarrow> False)"

text \<open>
  The records of the text source in the words of the specification: every non-blank
  line, stripped, with the name made of its line number and the default credentials.
\<close>

definition spec_txt_records :: "pystr list \<Rightarrow> dict list" where
  "spec_txt_records lines =
     map (\<lambda>(i, line).
            [(str ''name'', str ''Proxy '' @ str_of_nat i), (str ''ip'', strip line),
             (str ''user'', str ''edcguest''), (str ''password'', str ''edcguest'')])
       (filter (\<lambda>(i, line). strip line \<noteq> []) (zip [1 ..< Suc (length lines)] lines))"

text \<open>The structured source gives no catalog: absent or unreadable, not a list, or empty.\<close>

definition json_unusable :: "world \<Rightarrow> bool" where
  "json_unusable w =
     (case proxies_json w of
        Inl e \<Rightarrow> True
      | Inr NotAList \<Rightarrow> True
      | Inr (JList data) \<Rightarrow> data = [])"

text \<open>The lines the text source delivers; none when it cannot be opened.\<close>

definition txt_lines :: "world \<Rightarrow> pystr list" where
  "txt_lines w = (case proxy_txt w of Inl e \<Rightarrow> [] | Inr (lines, err) \<Rightarrow> lines)"

text \<open>The selection state: the selected record of each of the two subsystems.\<close>

definition selections :: "sys \<Rightarrow> dict \<times> dict" where
  "selections s = (proxy_selection s, redsocks_selection s)"

text \<open>A statement that leaves the selection state as it found it.\<close>

definition keeps_selections :: "(sys \<Rightarrow> 'a res) \<Rightarrow> bool" where
  "keeps_selections m = (\<forall>s. selections (snd (m s)) = selections s)"

subsection \<open>A concrete world\<close>

text \<open>
  The catalog of the scenario of the specification, a world that has it in proxies.json
  and no proxy.txt, and a state whose selections are its first record.
\<close>

definition catalog_AB :: "dict list" where
  "catalog_AB =
     [[(str ''name'', str ''A''), (str ''ip'', str ''10.0.0.1'')],
      [(str ''name'', str ''B''), (str ''ip'', str ''10.0.0.2'')]]"

definition world_AB :: "(event list \<Rightarrow> pystr list \<Rightarrow> proc) \<Rightarrow> world" where
  "world_AB f =
     \<lparr>proxies_json = Inr (JList catalog_AB), proxy_txt = Inl OSError, ext = f,
      exc_str = (\<lambda>e. str ''error'')\<rparr>"

definition state_AB :: sys where
  "state_AB =
     \<lparr>running = True,
      proxy_selection = [(str ''name'', str ''A''), (str ''ip'', str ''10.0.0.1'')],
      redsocks_selection = [(str ''name'', str ''A''), (str ''ip'', str ''10.0.0.1'')],
      icon_icon = \<lparr>bg = CLR_OFF, label = [8211], fsize = 30\<rparr>,
      icon_title = [],
      trace = []\<rparr>"

text \<open>A world with no proxies.json and a proxy.txt of three lines, and one with neither file.\<close>

definition world_txt :: world where
  "world_txt =
     \<lparr>proxies_json = Inl OSError,
      proxy_txt = Inr ([str ''10.0.0.1'' @ [10], [10], str '' 10.0.0.2 '' @ [10]], None),
      ext = (\<lambda>tr args. Failed OSError),
      exc_str = (\<lambda>e. str ''error'')\<rparr>"

definition world_bare :: world where
  "world_bare =
     \<lparr>proxies_json = Inl OSError, proxy_txt = Inl OSError,
      ext = (\<lambda>tr args. Failed OSError),
      exc_str = (\<lambda>e. str ''error'')\<rparr>"

text \<open>The proxy URL of the record A, which has no user.\<close>

definition url_A :: pystr where
  "url_A = str ''http://10.0.0.1:3128''"

section \<open>Properties\<close>

subsection \<open>Auxiliary facts\<close>

lemma is_proxy_on_eq:
  "is_proxy_on w s =
     (Inr (probe_proxy w (trace s)), s\<lparr>trace := trace s @ [Run kreadconfig6_ProxyType]\<rparr>)"
  by (simp add: is_proxy_on_def probe_proxy_def try_except_def bindM_def subprocess_run_def
      ret_def Let_def split: proc.splits)

lemma is_redsocks_on_eq:
  "is_redsocks_on w s =
     (Inr (probe_redsocks w (trace s)), s\<lparr>trace := trace s @ [Run systemctl_is_active]\<rparr>)"
  by (simp add: is_redsocks_on_def probe_redsocks_def check_call_def try_except_def bindM_def
      subprocess_run_def ret_def Let_def split: proc.splits)

lemma render_icon_eq:
  "render_icon w s =
     (Inr (draw (icon_style (probe_proxy w (trace s))
                   (probe_redsocks w (trace s @ [Run kreadconfig6_ProxyType])))),
      s\<lparr>trace := trace s @ probe_events\<rparr>)"
  by (simp add: render_icon_def bindM_def is_proxy_on_eq is_redsocks_on_eq ret_def
      probe_events_def)

lemma tooltip_state: "snd (tooltip w s) = s\<lparr>trace := trace s @ probe_events\<rparr>"
  by (simp add: tooltip_def bindM_def is_proxy_on_eq is_redsocks_on_eq ret_def sel_item_def
      probe_events_def split: sum.splits)

lemma refresh_cases:
  obtains (raised) e img where
      "refresh w s =
         (Inl e, s\<lparr>icon_icon := img, trace := trace s @ probe_events @ probe_events\<rparr>)"
    | (finished) img t where
      "refresh w s =
         (Inr (), s\<lparr>icon_icon := img, trace := trace s @ probe_events @ probe_events,
                    icon_title := t\<rparr>)"
proof -
  define img where
    "img = draw (icon_style (probe_proxy w (trace s))
                   (probe_redsocks w (trace s @ [Run kreadconfig6_ProxyType])))"
  define s1 where "s1 = s\<lparr>trace := trace s @ probe_events, icon_icon := img\<rparr>"
  have r: "refresh w s = bindM (tooltip w) set_title s1"
    by (simp add: refresh_def bindM_def render_icon_eq set_icon_def img_def s1_def)
  have st: "snd (tooltip w s1) =
      s\<lparr>icon_icon := img, trace := trace s @ probe_events @ probe_events\<rparr>"
    by (simp add: tooltip_state s1_def)
  show thesis
  proof (cases "fst (tooltip w s1)")
    case (Inl e)
    then obtain s2 where t: "tooltip w s1 = (Inl e, s2)"
      by (cases "tooltip w s1") simp
    then have "refresh w s = (Inl e, s2)"
      by (simp add: r bindM_def)
    then show thesis using raised st t by simp
  next
    case (Inr t)
    then obtain s2 where t: "tooltip w s1 = (Inr t, s2)"
      by (cases "tooltip w s1") simp
    then have "refresh w s = (Inr (), s2\<lparr>icon_title := t\<rparr>)"
      by (simp add: r bindM_def set_title_def)
    then show thesis using finished st t by simp
  qed
qed

lemma refresh_frame:
  "running (snd (refresh w s)) = running s"
  "proxy_selection (snd (refresh w s)) = proxy_selection s"
  "redsocks_selection (snd (refresh w s)) = redsocks_selection s"
  "trace (snd (refresh w s)) = trace s @ probe_events @ probe_events"
  by (cases rule: refresh_cases [of w s]; simp)+

subsection \<open>The rendered colour and label\<close>

text \<open>
  C2. Whatever the two probes of \<open>_render_icon\<close> return, the icon is drawn, and its
  colour and label are given by the table: neither on, gray \<open>CLR_OFF\<close> and the en dash;
  only the system proxy on, blue \<open>CLR_PROXY\<close> and "P"; only redsocks on, green
  \<open>CLR_REDSOCKS\<close> and "R"; both on, purple \<open>CLR_BOTH\<close> and "PR".
\<close>

theorem render_icon_mapping:
  assumes "fst (is_proxy_on w s) = Inr proxy"
    and "fst (is_redsocks_on w (snd (is_proxy_on w s))) = Inr redsocks"
  shows "\<exists>img. fst (render_icon w s) = Inr img \<and>
     (bg img, label img) =
       (case (proxy, redsocks) of
          (False, False) \<Rightarrow> (CLR_OFF, [8211])
        | (True, False) \<Rightarrow> (CLR_PROXY, str ''P'')
        | (False, True) \<Rightarrow> (CLR_REDSOCKS, str ''R'')
        | (True, True) \<Rightarrow> (CLR_BOTH, str ''PR''))"
  using assms
  by (auto simp add: render_icon_eq is_proxy_on_eq is_redsocks_on_eq draw_def icon_style_def)

theorem render_icon_mapping_witness:
  "fst (is_proxy_on (world_AB (\<lambda>tr args. Exited 0 (str ''1''))) state_AB) = Inr True \<and>
   fst (is_redsocks_on (world_AB (\<lambda>tr args. Exited 0 (str ''1'')))
          (snd (is_proxy_on (world_AB (\<lambda>tr args. Exited 0 (str ''1''))) state_AB))) = Inr True \<and>
   (\<exists>img. fst (render_icon (world_AB (\<lambda>tr args. Exited 0 (str ''1''))) state_AB) = Inr img \<and>
      (bg img, label img) = (CLR_BOTH, str ''PR''))"
proof -
  let ?w = "world_AB (\<lambda>tr args. Exited 0 (str ''1''))"
  have p: "fst (is_proxy_on ?w state_AB) = Inr True"
    by (simp add: is_proxy_on_eq probe_proxy_def world_AB_def strip_def isspace_def str_def)
  have r: "fst (is_redsocks_on ?w (snd (is_proxy_on ?w state_AB))) = Inr True"
    by (simp add: is_redsocks_on_eq probe_redsocks_def world_AB_def)
  show ?thesis
    using render_icon_mapping [OF p r] p r by simp
qed

subsection \<open>The status probes\<close>

text \<open>
  C3, as the code has it. Neither probe raises. \<open>is_proxy_on\<close> returns true exactly
  when the ProxyType read completes, with any return code, and its output stripped of
  white space is "1"; \<open>is_redsocks_on\<close> returns true exactly when the service query
  exits with 0. A missing tool and a timeout give false for both; a return code other than
  0 gives false for \<open>is_redsocks_on\<close>.
\<close>

theorem probes_never_raise:
  "fst (is_proxy_on w s) =
     Inr (case ext w (trace s) kreadconfig6_ProxyType of
            Exited rc out \<Rightarrow> strip out = str ''1''
          | Failed e \<Rightarrow> False) \<and>
   fst (is_redsocks_on w s) =
     Inr (case ext w (trace s) systemctl_is_active of
            Exited rc out \<Rightarrow> rc = 0
          | Failed e \<Rightarrow> False)"
  by (simp add: is_proxy_on_eq is_redsocks_on_eq probe_proxy_def probe_redsocks_def)

text \<open>
  C3 as stated fails: \<open>is_proxy_on\<close> does not look at the return code. When the read
  exits with status 1 and has printed "1" and a line end, the probe returns true.
\<close>

theorem is_proxy_on_nonzero_exit:
  "ext (world_AB (\<lambda>tr args. Exited 1 (str ''1'' @ [10]))) (trace state_AB) kreadconfig6_ProxyType
     = Exited 1 (str ''1'' @ [10]) \<and>
   fst (is_proxy_on (world_AB (\<lambda>tr args. Exited 1 (str ''1'' @ [10]))) state_AB) = Inr True"
  by (simp add: is_proxy_on_eq probe_proxy_def world_AB_def strip_def isspace_def str_def)

subsection \<open>The tooltip\<close>

text \<open>
  C8, as the code has it. When both selections have an address, the tooltip is
  "Proxy: ON|OFF (system-proxy address)  |  Redsocks: ON|OFF (redsocks address)", the
  bar standing between two spaces on each side; ON or OFF follows the probes, and the
  addresses are those of the selections whatever the probes return.
\<close>

theorem tooltip_text:
  assumes "fst (is_proxy_on w s) = Inr proxy"
    and "fst (is_redsocks_on w (snd (is_proxy_on w s))) = Inr redsocks"
    and "map_of (proxy_selection s) (str ''ip'') = Some proxy_ip"
    and "map_of (redsocks_selection s) (str ''ip'') = Some redsocks_ip"
  shows "fst (tooltip w s) =
     Inr (str ''Proxy: '' @ (if proxy then str ''ON'' else str ''OFF'') @ str '' ('' @ proxy_ip @
          str '')  |  Redsocks: '' @ (if redsocks then str ''ON'' else str ''OFF'') @ str '' ('' @
          redsocks_ip @ str '')'')"
  using assms
  by (simp add: tooltip_def bindM_def is_proxy_on_eq is_redsocks_on_eq sel_item_def getitem_def
      ret_def on_off_def str_def)

theorem tooltip_text_witness:
  "fst (is_proxy_on (world_AB (\<lambda>tr args. Exited 0 (str ''1''))) state_AB) = Inr True \<and>
   fst (is_redsocks_on (world_AB (\<lambda>tr args. Exited 0 (str ''1'')))
          (snd (is_proxy_on (world_AB (\<lambda>tr args. Exited 0 (str ''1''))) state_AB))) = Inr True \<and>
   map_of (proxy_selection state_AB) (str ''ip'') = Some (str ''10.0.0.1'') \<and>
   map_of (redsocks_selection state_AB) (str ''ip'') = Some (str ''10.0.0.1'') \<and>
   fst (tooltip (world_AB (\<lambda>tr args. Exited 0 (str ''1''))) state_AB) =
     Inr (str ''Proxy: ON (10.0.0.1)  |  Redsocks: ON (10.0.0.1)'')"
proof -
  let ?w = "world_AB (\<lambda>tr args. Exited 0 (str ''1''))"
  have p: "fst (is_proxy_on ?w state_AB) = Inr True"
    by (simp add: is_proxy_on_eq probe_proxy_def world_AB_def strip_def isspace_def str_def)
  have r: "fst (is_redsocks_on ?w (snd (is_proxy_on ?w state_AB))) = Inr True"
    by (simp add: is_redsocks_on_eq probe_redsocks_def world_AB_def)
  have a: "map_of (proxy_selection state_AB) (str ''ip'') = Some (str ''10.0.0.1'')"
    by (simp add: state_AB_def str_def)
  have b: "map_of (redsocks_selection state_AB) (str ''ip'') = Some (str ''10.0.0.1'')"
    by (simp add: state_AB_def str_def)
  have "fst (tooltip ?w state_AB) = Inr (str ''Proxy: ON (10.0.0.1)  |  Redsocks: ON (10.0.0.1)'')"
    using tooltip_text [OF p r a b] by (simp add: str_def)
  then show ?thesis
    using p r a b by simp
qed

text \<open>
  C8 as stated fails: with single spaces around the bar the text is not the tooltip.
\<close>

theorem tooltip_single_space_counterexample:
  "fst (tooltip (world_AB (\<lambda>tr args. Exited 0 (str ''1''))) state_AB) \<noteq>
     Inr (str ''Proxy: ON (10.0.0.1) | Redsocks: ON (10.0.0.1)'')"
  by (simp add: tooltip_def bindM_def is_proxy_on_eq is_redsocks_on_eq sel_item_def getitem_def
      ret_def on_off_def str_def state_AB_def probe_proxy_def probe_redsocks_def world_AB_def
      strip_def isspace_def)

subsection \<open>The catalog loader\<close>

lemma txt_loop_eq:
  "txt_loop i lines acc =
     acc @ map (\<lambda>(i, line). txt_entry i (strip line))
             (filter (\<lambda>(i, line). strip line \<noteq> []) (zip [i ..< i + length lines] lines))"
proof (induction lines arbitrary: i acc)
  case Nil
  then show ?case by simp
next
  case (Cons line rest)
  have z: "zip [i ..< i + length (line # rest)] (line # rest) =
      (i, line) # zip [Suc i ..< Suc i + length rest] rest"
    by (simp add: upt_rec [of i "Suc (i + length rest)"] del: upt_Suc)
  show ?case
    by (simp only: z txt_loop.simps Let_def Cons.IH) simp
qed

lemma load_txt_eq: "load_txt w [] = spec_txt_records (txt_lines w)"
  by (simp add: load_txt_def txt_body_def txt_lines_def spec_txt_records_def txt_loop_eq
      txt_entry_def split: sum.splits prod.splits option.splits)

lemma load_json_eq:
  "load_json w = (case proxies_json w of Inr (JList data) \<Rightarrow> data | _ \<Rightarrow> [])"
  by (simp add: load_json_def json_body_def split: sum.splits json.splits)

lemma spec_txt_records_empty:
  "spec_txt_records lines = [] \<longleftrightarrow> list_all (\<lambda>line. strip line = []) lines"
proof -
  have "filter (\<lambda>(i, line). strip line \<noteq> []) (zip [j ..< j + length lines] lines) = []
      \<longleftrightarrow> list_all (\<lambda>line. strip line = []) lines" for j
  proof (induction lines arbitrary: j)
    case Nil
    then show ?case by simp
  next
    case (Cons line rest)
    have z: "zip [j ..< j + length (line # rest)] (line # rest) =
        (j, line) # zip [Suc j ..< Suc j + length rest] rest"
      by (simp add: upt_rec [of j "Suc (j + length rest)"] del: upt_Suc)
    show ?case
      using Cons.IH [of "Suc j"] by (simp only: z) simp
  qed
  from this [of 1] show ?thesis
    by (simp add: spec_txt_records_def)
qed


text \<open>
  C6. \<open>_load_proxies\<close> never raises. A non-empty list in proxies.json is the catalog.
  When proxies.json is absent, unreadable, not a list or empty, the catalog is made of the
  non-blank lines of proxy.txt, each stripped and named "Proxy" and its line number, with
  the default credentials. The catalog is empty exactly when proxies.json gives nothing
  and proxy.txt cannot be read or has no non-blank line (the sense in which the text
  source is empty).
\<close>

theorem load_proxies_sources:
  "(\<exists>proxies. load_proxies w = Inr proxies) \<and>
   (\<forall>data. proxies_json w = Inr (JList data) \<and> data \<noteq> [] \<longrightarrow> load_proxies w = Inr data) \<and>
   (json_unusable w \<longrightarrow> load_proxies w = Inr (spec_txt_records (txt_lines w))) \<and>
   (load_proxies w = Inr [] \<longleftrightarrow>
      json_unusable w \<and> list_all (\<lambda>line. strip line = []) (txt_lines w))"
proof -
  have a: "json_unusable w \<Longrightarrow> load_proxies w = Inr (spec_txt_records (txt_lines w))"
    by (simp add: load_proxies_def load_json_eq json_unusable_def load_txt_eq
        split: sum.splits json.splits)
  have b: "proxies_json w = Inr (JList data) \<Longrightarrow> data \<noteq> [] \<Longrightarrow> load_proxies w = Inr data" for data
    by (simp add: load_proxies_def load_json_eq)
  have c: "\<not> json_unusable w \<Longrightarrow> load_proxies w \<noteq> Inr []"
    by (auto simp add: json_unusable_def b split: sum.splits json.splits)
  have d: "load_proxies w = Inr [] \<longleftrightarrow>
      json_unusable w \<and> list_all (\<lambda>line. strip line = []) (txt_lines w)"
  proof (cases "json_unusable w")
    case True
    then show ?thesis
      using a spec_txt_records_empty [of "txt_lines w"] by simp
  next
    case False
    then show ?thesis
      using c by simp
  qed
  have e: "\<exists>proxies. load_proxies w = Inr proxies"
    by (simp add: load_proxies_def Let_def)
  show ?thesis
    using a b d e by blast
qed


subsection \<open>The initial selection\<close>

text \<open>
  C5. When the catalog has an entry, \<open>__init__\<close> makes both selections the first
  record of the catalog; when it is empty, both are the fallback record named "Default",
  with address "172.16.x.x" and the default credentials.
\<close>

theorem initial_selection:
  "(\<forall>first others. load_proxies w = Inr (first # others) \<longrightarrow>
      init w = Inr \<lparr>running = True, proxy_selection = first, redsocks_selection = first\<rparr>) \<and>
   (load_proxies w = Inr [] \<longrightarrow>
      init w = Inr \<lparr>running = True, proxy_selection = fallback_proxy,
                    redsocks_selection = fallback_proxy\<rparr>) \<and>
   fallback_proxy =
     [(str ''name'', str ''Default''), (str ''ip'', str ''172.16.x.x''),
      (str ''user'', str ''edcguest''), (str ''password'', str ''edcguest'')]"
  by (simp add: init_def initial_proxy_def fallback_proxy_def)

subsection \<open>The loader and the initial selection on concrete files\<close>

lemma load_proxies_AB: "load_proxies (world_AB f) = Inr catalog_AB"
  by (simp add: load_proxies_def load_json_def json_body_def world_AB_def catalog_AB_def)

lemma load_proxies_bare: "load_proxies world_bare = Inr []"
  by (simp add: load_proxies_def load_json_def json_body_def world_bare_def load_txt_def
      txt_body_def)

theorem initial_selection_witness:
  "load_proxies (world_AB (\<lambda>tr args. Failed OSError)) =
     Inr ([(str ''name'', str ''A''), (str ''ip'', str ''10.0.0.1'')] #
          [[(str ''name'', str ''B''), (str ''ip'', str ''10.0.0.2'')]]) \<and>
   init (world_AB (\<lambda>tr args. Failed OSError)) =
     Inr \<lparr>running = True,
          proxy_selection = [(str ''name'', str ''A''), (str ''ip'', str ''10.0.0.1'')],
          redsocks_selection = [(str ''name'', str ''A''), (str ''ip'', str ''10.0.0.1'')]\<rparr> \<and>
   load_proxies world_bare = Inr [] \<and>
   init world_bare =
     Inr \<lparr>running = True, proxy_selection = fallback_proxy,
          redsocks_selection = fallback_proxy\<rparr>"
  using initial_selection [of "world_AB (\<lambda>tr args. Failed OSError)"]
    initial_selection [of world_bare]
  by (simp add: load_proxies_AB load_proxies_bare catalog_AB_def)

lemma load_proxies_txt:
  "load_proxies world_txt =
     Inr [[(str ''name'', str ''Proxy 1''), (str ''ip'', str ''10.0.0.1''),
           (str ''user'', str ''edcguest''), (str ''password'', str ''edcguest'')],
          [(str ''name'', str ''Proxy 3''), (str ''ip'', str ''10.0.0.2''),
           (str ''user'', str ''edcguest''), (str ''password'', str ''edcguest'')]]"
proof -
  have n: "str_of_nat (Suc 0) = str ''1''" "str_of_nat (Suc (Suc (Suc 0))) = str ''3''"
    by (simp_all add: str_of_nat.simps digit_def str_def)
  have s: "strip (str ''10.0.0.1'' @ [10]) = str ''10.0.0.1''" "strip [10] = []"
    "strip (str '' 10.0.0.2 '' @ [10]) = str ''10.0.0.2''"
    by (simp_all add: strip_def isspace_def str_def)
  have e: "str ''10.0.0.1'' \<noteq> []" "str ''10.0.0.2'' \<noteq> []"
    by (simp_all add: str_def)
  have a: "str ''Proxy '' @ str ''1'' = str ''Proxy 1''" "str ''Proxy '' @ str ''3'' = str ''Proxy 3''"
    by (simp_all add: str_def)
  show ?thesis
    by (simp add: load_proxies_def load_json_def json_body_def load_txt_def txt_body_def
        world_txt_def s e n a txt_entry_def)
qed


theorem load_proxies_sources_witness:
  "proxies_json (world_AB (\<lambda>tr args. Failed OSError)) = Inr (JList catalog_AB) \<and>
   catalog_AB \<noteq> [] \<and>
   load_proxies (world_AB (\<lambda>tr args. Failed OSError)) = Inr catalog_AB \<and>
   json_unusable world_txt \<and>
   load_proxies world_txt = Inr (spec_txt_records (txt_lines world_txt)) \<and>
   load_proxies world_txt =
     Inr [[(str ''name'', str ''Proxy 1''), (str ''ip'', str ''10.0.0.1''),
           (str ''user'', str ''edcguest''), (str ''password'', str ''edcguest'')],
          [(str ''name'', str ''Proxy 3''), (str ''ip'', str ''10.0.0.2''),
           (str ''user'', str ''edcguest''), (str ''password'', str ''edcguest'')]] \<and>
   json_unusable world_bare \<and> list_all (\<lambda>line. strip line = []) (txt_lines world_bare) \<and>
   load_proxies world_bare = Inr []"
proof -
  have j: "json_unusable world_txt" "json_unusable world_bare"
    by (simp_all add: json_unusable_def world_txt_def world_bare_def)
  have b: "list_all (\<lambda>line. strip line = []) (txt_lines world_bare)"
    by (simp add: txt_lines_def world_bare_def)
  have c: "proxies_json (world_AB (\<lambda>tr args. Failed OSError)) = Inr (JList catalog_AB)"
    "catalog_AB \<noteq> []"
    by (simp_all add: world_AB_def catalog_AB_def)
  have 1: "load_proxies (world_AB (\<lambda>tr args. Failed OSError)) = Inr catalog_AB"
    using load_proxies_sources [of "world_AB (\<lambda>tr args. Failed OSError)"] c by blast
  have 2: "load_proxies world_txt = Inr (spec_txt_records (txt_lines world_txt))"
    using load_proxies_sources [of world_txt] j by blast
  have 3: "load_proxies world_bare = Inr []"
    using load_proxies_sources [of world_bare] j b by blast
  show ?thesis
    using 1 2 3 j b c load_proxies_txt by simp
qed

text \<open>The line number of a name is printed in decimal digits.\<close>

lemma str_of_nat_digits: "list_all (\<lambda>c. 48 \<le> c \<and> c \<le> 57) (str_of_nat n)"
proof (induction n rule: str_of_nat.induct)
  case (1 n)
  have m: "n mod 10 \<le> 9"
    by presburger
  show ?case
    using 1 m by (subst str_of_nat.simps) (simp add: digit_def)
qed

lemma str_of_nat_decimal: "foldl (\<lambda>a c. 10 * a + (c - 48)) 0 (str_of_nat n) = n"
proof (induction n rule: str_of_nat.induct)
  case (1 n)
  show ?case
    using 1 by (subst str_of_nat.simps) (simp add: digit_def)
qed

subsection \<open>The mutations\<close>

lemma notifications_simps [simp]:
  "notifications (xs @ ys) = notifications xs @ notifications ys"
  "notifications (map Run cs) = []"
  "notifications probe_events = []"
  "notifications [] = []"
  "notifications (Notify t b u # xs) = Notify t b u # notifications xs"
  "notifications (Run c # xs) = notifications xs"
  "notifications (IconStop # xs) = notifications xs"
  by (induction cs) (simp_all add: notifications_def probe_events_def)

lemma subprocess_run_checked:
  "subprocess_run w c True s =
     (case first_failure w (trace s) [c] of
        None \<Rightarrow> (Inr (0, case ext w (trace s) c of Exited rc out \<Rightarrow> out | Failed e \<Rightarrow> []),
                 s\<lparr>trace := trace s @ [Run c]\<rparr>)
      | Some (i, e) \<Rightarrow> (Inl e, s\<lparr>trace := trace s @ [Run c]\<rparr>))"
  by (simp add: subprocess_run_def Let_def split: proc.splits)

lemma first_failure_single: "first_failure w tr [c] = Some (i, e) \<Longrightarrow> i = 0"
  by (simp split: proc.splits if_splits)

lemma first_failure_bound: "first_failure w tr cs = Some (i, e) \<Longrightarrow> i < length cs"
proof (induction cs arbitrary: tr i)
  case Nil
  then show ?case by simp
next
  case (Cons c cs)
  then show ?case
    by (auto split: proc.splits if_splits)
qed

lemma write_settings_eq:
  "write_settings w kvs s =
     (case first_failure w (trace s) (map kwriteconfig6 kvs) of
        None \<Rightarrow> (Inr (), s\<lparr>trace := trace s @ map Run (map kwriteconfig6 kvs)\<rparr>)
      | Some (i, e) \<Rightarrow>
          (Inl e, s\<lparr>trace := trace s @ map Run (take (Suc i) (map kwriteconfig6 kvs))\<rparr>))"
proof (induction kvs arbitrary: s)
  case Nil
  then show ?case by simp
next
  case (Cons kv kvs)
  show ?case
  proof (cases "ext w (trace s) (kwriteconfig6 kv)")
    case (Failed e)
    then show ?thesis
      by (simp add: subprocess_run_def Let_def)
  next
    case (Exited rc out)
    show ?thesis
    proof (cases "rc = 0")
      case False
      then show ?thesis
        using Exited by (simp add: subprocess_run_def Let_def)
    next
      case True
      then show ?thesis
        using Exited Cons.IH [of "s\<lparr>trace := trace s @ [Run (kwriteconfig6 kv)]\<rparr>"]
        by (simp add: subprocess_run_def Let_def split: option.splits)
    qed
  qed
qed


lemma enable_proxy_failure:
  assumes "first_failure w (trace s) (mutation_cmds EnableProxy s) = Some (i, e)"
  shows "enable_proxy w s =
     refresh w (s\<lparr>trace := trace s @ map Run (take (Suc i) (mutation_cmds EnableProxy s)) @
                    [Notify (str ''Proxy Error'') (exc_str w e) (str ''critical'')]\<rparr>)"
proof (cases "getitem (proxy_selection s) (str ''ip'')")
  case (Inl err)
  then show ?thesis using assms by simp
next
  case (Inr ip)
  then show ?thesis
    using assms
    by (simp add: enable_proxy_def bindM_def sel_item_def ret_def try_except_def
        write_settings_eq notify_def)
qed

lemma enable_proxy_success:
  assumes "getitem (proxy_selection s) (str ''ip'') = Inr ip"
    and "first_failure w (trace s) (mutation_cmds EnableProxy s) = None"
  shows "enable_proxy w s =
     refresh w (s\<lparr>trace := trace s @ map Run (mutation_cmds EnableProxy s) @
        [case getitem (proxy_selection s) (str ''name'') of
           Inr name \<Rightarrow>
             Notify (str ''Proxy ON'')
               (str ''System proxy '' @ [8594] @ str '' '' @ name @ str '' ('' @ ip @ str '':'' @
                PROXY_PORT @ str '')'')
               (str ''normal'')
         | Inl e \<Rightarrow> Notify (str ''Proxy Error'') (exc_str w e) (str ''critical'')]\<rparr>)"
  using assms
  by (simp add: enable_proxy_def bindM_def sel_item_def ret_def try_except_def
      write_settings_eq notify_def split: sum.splits)

lemma disable_proxy_failure:
  assumes "first_failure w (trace s) (mutation_cmds DisableProxy s) = Some (i, e)"
  shows "disable_proxy w s =
     refresh w (s\<lparr>trace := trace s @ map Run (take (Suc i) (mutation_cmds DisableProxy s)) @
                    [Notify (str ''Proxy Error'') (exc_str w e) (str ''critical'')]\<rparr>)"
  using assms
  by (simp add: disable_proxy_def bindM_def try_except_def subprocess_run_checked notify_def
      del: first_failure.simps)

lemma enable_redsocks_failure:
  assumes "first_failure w (trace s) (mutation_cmds EnableRedsocks s) = Some (i, e)"
  shows "enable_redsocks w s =
     refresh w (s\<lparr>trace := trace s @ map Run (take (Suc i) (mutation_cmds EnableRedsocks s)) @
                    [Notify (str ''Redsocks Error'') (exc_str w e) (str ''critical'')]\<rparr>)"
proof (cases "getitem (redsocks_selection s) (str ''ip'')")
  case (Inl err)
  then show ?thesis using assms by simp
next
  case (Inr ip)
  then show ?thesis
    using assms
    by (simp add: enable_redsocks_def bindM_def sel_item_def try_except_def
        subprocess_run_checked notify_def del: first_failure.simps)
qed

lemma disable_redsocks_failure:
  assumes "first_failure w (trace s) (mutation_cmds DisableRedsocks s) = Some (i, e)"
  shows "disable_redsocks w s =
     refresh w (s\<lparr>trace := trace s @ map Run (take (Suc i) (mutation_cmds DisableRedsocks s)) @
                    [Notify (str ''Redsocks Error'') (exc_str w e) (str ''critical'')]\<rparr>)"
  using assms
  by (simp add: disable_redsocks_def bindM_def try_except_def subprocess_run_checked notify_def
      del: first_failure.simps)

lemma mutation_failure:
  assumes "first_failure w (trace s) (mutation_cmds a s) = Some (i, e)"
  shows "menu w a s =
     refresh w (s\<lparr>trace := trace s @ map Run (take (Suc i) (mutation_cmds a s)) @
                    [Notify (error_title a) (exc_str w e) (str ''critical'')]\<rparr>)"
proof (cases a)
  case EnableProxy
  then show ?thesis using enable_proxy_failure assms by simp
next
  case DisableProxy
  then show ?thesis using disable_proxy_failure assms by simp
next
  case EnableRedsocks
  then show ?thesis using enable_redsocks_failure assms by simp
next
  case DisableRedsocks
  then show ?thesis using disable_redsocks_failure assms by simp
qed (use assms in simp_all)


lemma mutation_cmds_length: "length (mutation_cmds a s) \<le> 5"
  by (cases a) (simp_all add: settings_def split: sum.splits)

text \<open>
  C1, as the code has it. Enabling the system proxy writes the five keys ProxyType,
  httpProxy, httpsProxy, ftpProxy and NoProxyFor in this order and stops at the first
  write that fails: the writes after it are not attempted. When a write fails, the
  operation sends exactly one notification, the critical "Proxy Error", and then only
  refreshes: the writes already applied are not rolled back, since nothing but the two
  read-only probes runs afterwards. When no write fails, all five are made and one
  notification follows.
\<close>

theorem enable_proxy_writes:
  "(\<forall>ip. getitem (proxy_selection s) (str ''ip'') = Inr ip \<longrightarrow>
      mutation_cmds EnableProxy s =
        map kwriteconfig6
          [(str ''ProxyType'', str ''1''),
           (str ''httpProxy'', proxy_url (proxy_selection s) ip),
           (str ''httpsProxy'', proxy_url (proxy_selection s) ip),
           (str ''ftpProxy'', proxy_url (proxy_selection s) ip),
           (str ''NoProxyFor'',
            str ''localhost,127.0.0.0/8,10.0.0.0/8,172.16.0.0/12,192.168.0.0/16'')]) \<and>
   (\<forall>i e. first_failure w (trace s) (mutation_cmds EnableProxy s) = Some (i, e) \<longrightarrow>
      i < 5 \<and>
      enable_proxy w s =
        refresh w (s\<lparr>trace := trace s @ map Run (take (Suc i) (mutation_cmds EnableProxy s)) @
                       [Notify (str ''Proxy Error'') (exc_str w e) (str ''critical'')]\<rparr>) \<and>
      trace (snd (enable_proxy w s)) =
        trace s @ map Run (take (Suc i) (mutation_cmds EnableProxy s)) @
        [Notify (str ''Proxy Error'') (exc_str w e) (str ''critical'')] @
        probe_events @ probe_events) \<and>
   (\<forall>ip. getitem (proxy_selection s) (str ''ip'') = Inr ip \<and>
      first_failure w (trace s) (mutation_cmds EnableProxy s) = None \<longrightarrow>
      (\<exists>ev. notifications [ev] = [ev] \<and>
         trace (snd (enable_proxy w s)) =
           trace s @ map Run (mutation_cmds EnableProxy s) @ [ev] @ probe_events @ probe_events))"
proof -
  have a: "getitem (proxy_selection s) (str ''ip'') = Inr ip \<Longrightarrow>
      mutation_cmds EnableProxy s =
        map kwriteconfig6
          [(str ''ProxyType'', str ''1''),
           (str ''httpProxy'', proxy_url (proxy_selection s) ip),
           (str ''httpsProxy'', proxy_url (proxy_selection s) ip),
           (str ''ftpProxy'', proxy_url (proxy_selection s) ip),
           (str ''NoProxyFor'',
            str ''localhost,127.0.0.0/8,10.0.0.0/8,172.16.0.0/12,192.168.0.0/16'')]" for ip
    by (simp add: settings_def)
  have b: "i < 5 \<and>
      enable_proxy w s =
        refresh w (s\<lparr>trace := trace s @ map Run (take (Suc i) (mutation_cmds EnableProxy s)) @
                       [Notify (str ''Proxy Error'') (exc_str w e) (str ''critical'')]\<rparr>) \<and>
      trace (snd (enable_proxy w s)) =
        trace s @ map Run (take (Suc i) (mutation_cmds EnableProxy s)) @
        [Notify (str ''Proxy Error'') (exc_str w e) (str ''critical'')] @
        probe_events @ probe_events"
    if f: "first_failure w (trace s) (mutation_cmds EnableProxy s) = Some (i, e)" for i e
  proof -
    have "i < length (mutation_cmds EnableProxy s)"
      using f by (rule first_failure_bound)
    then have "i < 5"
      using mutation_cmds_length [of EnableProxy s] by simp
    then show ?thesis
      by (simp add: enable_proxy_failure [OF f] refresh_frame)
  qed
  have c: "\<exists>ev. notifications [ev] = [ev] \<and>
         trace (snd (enable_proxy w s)) =
           trace s @ map Run (mutation_cmds EnableProxy s) @ [ev] @ probe_events @ probe_events"
    if g: "getitem (proxy_selection s) (str ''ip'') = Inr ip"
      and n: "first_failure w (trace s) (mutation_cmds EnableProxy s) = None" for ip
  proof (cases "getitem (proxy_selection s) (str ''name'')")
    case (Inl err)
    then show ?thesis
      by (simp add: enable_proxy_success [OF g n] refresh_frame)
  next
    case (Inr name)
    then show ?thesis
      by (simp add: enable_proxy_success [OF g n] refresh_frame)
  qed
  show ?thesis
    using a b c by blast
qed

text \<open>
  C4. When an external call of a mutation fails (the action is then one of the four
  mutations), the operation sends exactly one notification, critical and titled as the
  error of its subsystem, runs the refresh after it, and leaves both selections as they
  were.
\<close>

theorem failed_mutation:
  assumes "first_failure w (trace s) (mutation_cmds a s) = Some (i, e)"
  shows "a \<in> {EnableProxy, DisableProxy, EnableRedsocks, DisableRedsocks} \<and>
     menu w a s =
       refresh w (s\<lparr>trace := trace s @ map Run (take (Suc i) (mutation_cmds a s)) @
                      [Notify (error_title a) (exc_str w e) (str ''critical'')]\<rparr>) \<and>
     notifications (trace (snd (menu w a s))) =
       notifications (trace s) @ [Notify (error_title a) (exc_str w e) (str ''critical'')] \<and>
     proxy_selection (snd (menu w a s)) = proxy_selection s \<and>
     redsocks_selection (snd (menu w a s)) = redsocks_selection s"
proof -
  have "a \<in> {EnableProxy, DisableProxy, EnableRedsocks, DisableRedsocks}"
    using assms by (cases a) simp_all
  then show ?thesis
    by (simp add: mutation_failure [OF assms] refresh_frame)
qed

subsection \<open>The mutations in a concrete world\<close>

lemma cmds_AB:
  "mutation_cmds EnableProxy state_AB =
     [kwriteconfig6 (str ''ProxyType'', str ''1''),
      kwriteconfig6 (str ''httpProxy'', url_A),
      kwriteconfig6 (str ''httpsProxy'', url_A),
      kwriteconfig6 (str ''ftpProxy'', url_A),
      kwriteconfig6 (str ''NoProxyFor'',
        str ''localhost,127.0.0.0/8,10.0.0.0/8,172.16.0.0/12,192.168.0.0/16'')]"
  "mutation_cmds DisableProxy state_AB = [kwriteconfig6 (str ''ProxyType'', str ''0'')]"
  "mutation_cmds EnableRedsocks state_AB = [[str ''pkexec'', PROXY_CMD, str ''enable'', str ''10.0.0.1'']]"
  "mutation_cmds DisableRedsocks state_AB = [[str ''pkexec'', PROXY_CMD, str ''disable'']]"
  by (simp_all add: state_AB_def getitem_def settings_def proxy_url_def get_default_def
      PROXY_PORT_def url_A_def str_def)

lemma trace_AB [simp]: "trace state_AB = []"
  by (simp add: state_AB_def)

lemma world_AB_sel [simp]:
  "ext (world_AB f) = f" "exc_str (world_AB f) e = str ''error''"
  by (simp_all add: world_AB_def)

text \<open>
  C1 as stated fails: when the first write, of ProxyType, exits with status 1, no other
  write is attempted; the write of httpProxy is not in the trace.
\<close>

theorem enable_proxy_first_write_fails:
  "ext (world_AB (\<lambda>tr args. Exited 1 [])) (trace state_AB)
       (kwriteconfig6 (str ''ProxyType'', str ''1'')) = Exited 1 [] \<and>
   trace (snd (enable_proxy (world_AB (\<lambda>tr args. Exited 1 [])) state_AB)) =
     [Run (kwriteconfig6 (str ''ProxyType'', str ''1'')),
      Notify (str ''Proxy Error'') (str ''error'') (str ''critical'')] @
     probe_events @ probe_events \<and>
   Run (kwriteconfig6 (str ''httpProxy'', str ''http://10.0.0.1:3128''))
     \<notin> set (trace (snd (enable_proxy (world_AB (\<lambda>tr args. Exited 1 [])) state_AB)))"
proof -
  let ?w = "world_AB (\<lambda>tr args. Exited 1 [])"
  have f: "first_failure ?w (trace state_AB) (mutation_cmds EnableProxy state_AB)
      = Some (0, CalledProcessError 1)"
    by (simp add: cmds_AB del: mutation_cmds.simps)
  have t: "trace (snd (enable_proxy ?w state_AB)) =
     [Run (kwriteconfig6 (str ''ProxyType'', str ''1'')),
      Notify (str ''Proxy Error'') (str ''error'') (str ''critical'')] @
     probe_events @ probe_events"
    by (simp add: enable_proxy_failure [OF f] refresh_frame cmds_AB del: mutation_cmds.simps)
  have n: "Run (kwriteconfig6 (str ''httpProxy'', str ''http://10.0.0.1:3128''))
     \<notin> set (trace (snd (enable_proxy ?w state_AB)))"
    by (simp add: t probe_events_def kwriteconfig6_def kreadconfig6_ProxyType_def
        systemctl_is_active_def str_def)
  show ?thesis
    using t n by simp
qed

theorem enable_proxy_writes_witness:
  "getitem (proxy_selection state_AB) (str ''ip'') = Inr (str ''10.0.0.1'') \<and>
   first_failure (world_AB (\<lambda>tr args. if length tr = 2 then Failed TimeoutExpired else Exited 0 []))
     (trace state_AB) (mutation_cmds EnableProxy state_AB) = Some (2, TimeoutExpired) \<and>
   trace (snd (enable_proxy
       (world_AB (\<lambda>tr args. if length tr = 2 then Failed TimeoutExpired else Exited 0 []))
       state_AB)) =
     [Run (kwriteconfig6 (str ''ProxyType'', str ''1'')),
      Run (kwriteconfig6 (str ''httpProxy'', str ''http://10.0.0.1:3128'')),
      Run (kwriteconfig6 (str ''httpsProxy'', str ''http://10.0.0.1:3128'')),
      Notify (str ''Proxy Error'') (str ''error'') (str ''critical'')] @
     probe_events @ probe_events \<and>
   first_failure (world_AB (\<lambda>tr args. Exited 0 [])) (trace state_AB)
     (mutation_cmds EnableProxy state_AB) = None \<and>
   (\<exists>ev. notifications [ev] = [ev] \<and>
      trace (snd (enable_proxy (world_AB (\<lambda>tr args. Exited 0 [])) state_AB)) =
        map Run (mutation_cmds EnableProxy state_AB) @ [ev] @ probe_events @ probe_events)"
proof -
  let ?w = "world_AB (\<lambda>tr args. if length tr = 2 then Failed TimeoutExpired else Exited 0 [])"
  let ?v = "world_AB (\<lambda>tr args. Exited 0 [])"
  have g: "getitem (proxy_selection state_AB) (str ''ip'') = Inr (str ''10.0.0.1'')"
    by (simp add: state_AB_def getitem_def str_def)
  have f: "first_failure ?w (trace state_AB) (mutation_cmds EnableProxy state_AB)
      = Some (2, TimeoutExpired)"
    by (simp add: cmds_AB del: mutation_cmds.simps)
  have n: "first_failure ?v (trace state_AB) (mutation_cmds EnableProxy state_AB) = None"
    by (simp add: cmds_AB del: mutation_cmds.simps)
  have 1: "trace (snd (enable_proxy ?w state_AB)) =
     trace state_AB @ map Run (take (Suc 2) (mutation_cmds EnableProxy state_AB)) @
     [Notify (str ''Proxy Error'') (exc_str ?w TimeoutExpired) (str ''critical'')] @
     probe_events @ probe_events"
    using enable_proxy_writes [of state_AB ?w] f by blast
  have 2: "\<exists>ev. notifications [ev] = [ev] \<and>
      trace (snd (enable_proxy ?v state_AB)) =
        trace state_AB @ map Run (mutation_cmds EnableProxy state_AB) @ [ev] @
        probe_events @ probe_events"
    using enable_proxy_writes [of state_AB ?v] g n by blast
  have 3: "trace (snd (enable_proxy ?w state_AB)) =
     [Run (kwriteconfig6 (str ''ProxyType'', str ''1'')),
      Run (kwriteconfig6 (str ''httpProxy'', str ''http://10.0.0.1:3128'')),
      Run (kwriteconfig6 (str ''httpsProxy'', str ''http://10.0.0.1:3128'')),
      Notify (str ''Proxy Error'') (str ''error'') (str ''critical'')] @
     probe_events @ probe_events"
    unfolding 1 by (simp add: cmds_AB url_A_def del: mutation_cmds.simps)
  show ?thesis
    using g f n 2 3 by (simp del: mutation_cmds.simps)
qed

theorem failed_mutation_witness:
  "list_all (\<lambda>a.
      first_failure (world_AB (\<lambda>tr args. Exited 1 [])) (trace state_AB)
        (mutation_cmds a state_AB) = Some (0, CalledProcessError 1) \<and>
      notifications (trace (snd (menu (world_AB (\<lambda>tr args. Exited 1 [])) a state_AB))) =
        [Notify (error_title a) (str ''error'') (str ''critical'')] \<and>
      proxy_selection (snd (menu (world_AB (\<lambda>tr args. Exited 1 [])) a state_AB)) =
        proxy_selection state_AB \<and>
      redsocks_selection (snd (menu (world_AB (\<lambda>tr args. Exited 1 [])) a state_AB)) =
        redsocks_selection state_AB)
     [EnableProxy, DisableProxy, EnableRedsocks, DisableRedsocks]"
proof -
  let ?w = "world_AB (\<lambda>tr args. Exited 1 [])"
  have f: "first_failure ?w (trace state_AB) (mutation_cmds a state_AB)
      = Some (0, CalledProcessError 1)"
    if "a \<in> {EnableProxy, DisableProxy, EnableRedsocks, DisableRedsocks}" for a
    using that by (auto simp add: cmds_AB simp del: mutation_cmds.simps)
  note r = failed_mutation [OF f, THEN conjunct2, THEN conjunct2]
  show ?thesis
    using r [of EnableProxy] r [of DisableProxy] r [of EnableRedsocks] r [of DisableRedsocks] f
    by (simp del: mutation_cmds.simps)
qed

subsection \<open>What leaves the selections alone\<close>

lemma keeps_selectionsD: "keeps_selections m \<Longrightarrow> selections (snd (m s)) = selections s"
  by (simp add: keeps_selections_def)

lemma keeps_bindM:
  assumes "keeps_selections m" and "\<And>x. keeps_selections (f x)"
  shows "keeps_selections (bindM m f)"
  unfolding keeps_selections_def
proof
  fix s
  obtain r s1 where m: "m s = (r, s1)"
    by (cases "m s")
  have 1: "selections s1 = selections s"
    using keeps_selectionsD [OF assms(1), of s] m by simp
  show "selections (snd (bindM m f s)) = selections s"
  proof (cases r)
    case (Inl e)
    then show ?thesis using m 1 by (simp add: bindM_def)
  next
    case (Inr x)
    then show ?thesis
      using m 1 keeps_selectionsD [OF assms(2), of x s1] by (simp add: bindM_def)
  qed
qed

lemma keeps_try_except:
  assumes "keeps_selections m" and "\<And>e. keeps_selections (h e)"
  shows "keeps_selections (try_except m h)"
  unfolding keeps_selections_def
proof
  fix s
  obtain r s1 where m: "m s = (r, s1)"
    by (cases "m s")
  have 1: "selections s1 = selections s"
    using keeps_selectionsD [OF assms(1), of s] m by simp
  show "selections (snd (try_except m h s)) = selections s"
  proof (cases r)
    case (Inl e)
    then show ?thesis
      using m 1 keeps_selectionsD [OF assms(2), of e s1] by (simp add: try_except_def)
  next
    case (Inr x)
    then show ?thesis using m 1 by (simp add: try_except_def)
  qed
qed

lemma keeps_basic:
  "keeps_selections (ret x)"
  "keeps_selections (lift r)"
  "keeps_selections (notify t b u)"
  "keeps_selections (subprocess_run w args chk)"
  "keeps_selections (sel_item sel k)"
  "keeps_selections (refresh w)"
  by (simp_all add: keeps_selections_def selections_def ret_def lift_def notify_def
      subprocess_run_def sel_item_def refresh_frame Let_def split: proc.splits)

lemma keeps_write_settings: "keeps_selections (write_settings w kvs)"
  by (simp add: keeps_selections_def selections_def write_settings_eq
      split: option.splits prod.splits)

lemma keeps_if: "keeps_selections m \<Longrightarrow> keeps_selections n \<Longrightarrow> keeps_selections (if b then m else n)"
  by simp

lemma keeps_case_prod: "(\<And>a b. keeps_selections (f a b)) \<Longrightarrow> keeps_selections (case p of (a, b) \<Rightarrow> f a b)"
  by (cases p) simp

lemma keeps_lambda_ret: "keeps_selections (\<lambda>s. ret (g s) s)"
  by (simp add: keeps_selections_def ret_def)

lemmas keeps_intros = keeps_bindM keeps_try_except keeps_basic keeps_write_settings keeps_if
  keeps_case_prod keeps_lambda_ret

lemma keeps_enable_proxy: "keeps_selections (enable_proxy w)"
  unfolding enable_proxy_def by (intro keeps_intros)

lemma keeps_disable_proxy: "keeps_selections (disable_proxy w)"
  unfolding disable_proxy_def by (intro keeps_intros)

lemma keeps_enable_redsocks: "keeps_selections (enable_redsocks w)"
  unfolding enable_redsocks_def by (intro keeps_intros)

lemma keeps_disable_redsocks: "keeps_selections (disable_redsocks w)"
  unfolding disable_redsocks_def by (intro keeps_intros)

lemma keeps_quit: "keeps_selections quit"
  by (simp add: keeps_selections_def selections_def quit_def)

lemma keeps_monitor_pass: "keeps_selections (monitor_pass w)"
  unfolding monitor_pass_def by (intro keeps_intros)

lemma keeps_pick_body: "keeps_selections (pick_body w args cur proxies)"
  unfolding pick_body_def Let_def by (intro keeps_intros)

lemma keeps_pick_proxy: "keeps_selections (pick_proxy w title cur)"
  unfolding pick_proxy_def by (intro keeps_intros keeps_pick_body)

lemma monitor_selections: "selections (monitor w n s) = selections s"
proof (induction n arbitrary: s)
  case 0
  then show ?case by simp
next
  case (Suc n)
  then show ?case
    using keeps_selectionsD [OF keeps_monitor_pass, of w s] by simp
qed

subsection \<open>The selection picker\<close>

lemma find_choice_none:
  "radio_entries cur proxies = Inr es \<Longrightarrow>
   list_all (\<lambda>p. getitem p (str ''ip'') \<noteq> Inr choice) proxies \<Longrightarrow>
   find_choice choice proxies = Inr None"
proof (induction proxies arbitrary: es)
  case Nil
  then show ?case by simp
next
  case (Cons p ps)
  then show ?case
    by (auto split: sum.splits)
qed

lemma radiolist_args_entries:
  "radiolist_args title cur proxies = Inr args \<Longrightarrow> \<exists>es. radio_entries cur proxies = Inr es"
  by (simp add: radiolist_args_def split: sum.splits)

lemma radiolist_stepD:
  assumes "radiolist_step w title cur tr = Some (proxies, args, ans)"
  shows "load_proxies w = Inr proxies" "proxies \<noteq> []"
    "radiolist_args title cur proxies = Inr args" "ans = ext w tr args"
  using assms
  by (simp_all add: radiolist_step_def split: sum.splits if_splits)

lemma pick_proxy_at_step:
  assumes "radiolist_step w title cur (trace s) = Some (proxies, args, ans)"
  shows "pick_proxy w title cur s =
     try_except (pick_body w args cur proxies)
       (\<lambda>exc. bindM (notify (str ''Error'') (exc_str w exc) (str ''critical''))
          (\<lambda>u. ret None)) s"
  using radiolist_stepD [OF assms]
  by (simp add: pick_proxy_def bindM_def lift_def)

lemma pick_cancelled_at_list:
  assumes "cancelled_at_list w title cur (trace s)"
  shows "\<exists>runs. pick_proxy w title cur s = (Inr None, s\<lparr>trace := trace s @ map Run runs\<rparr>)"
proof -
  from assms obtain proxies args rc out where
    st: "radiolist_step w title cur (trace s) = Some (proxies, args, Exited rc out)"
    and rc: "rc \<noteq> 0"
    by (auto simp add: cancelled_at_list_def split: option.splits prod.splits proc.splits)
  have e: "ext w (trace s) args = Exited rc out"
    using radiolist_stepD(4) [OF st] by simp
  have "pick_proxy w title cur s = (Inr None, s\<lparr>trace := trace s @ map Run [args]\<rparr>)"
    using e rc
    by (simp add: pick_proxy_at_step [OF st] try_except_def pick_body_def bindM_def
        subprocess_run_def ret_def)
  then show ?thesis ..
qed

lemma pick_cancelled_at_custom:
  assumes "cancelled_at_custom w title cur (trace s)"
  shows "\<exists>runs. pick_proxy w title cur s = (Inr None, s\<lparr>trace := trace s @ map Run runs\<rparr>)"
proof -
  from assms obtain proxies args rc out cur_ip where
    st: "radiolist_step w title cur (trace s) = Some (proxies, args, Exited rc out)"
    and rc: "rc = 0" "strip out = str ''__custom__''"
    and ip: "getitem cur (str ''ip'') = Inr cur_ip"
    and b: "case ext w (trace s @ [Run args]) (inputbox_args cur_ip) of
              Exited rc2 out2 \<Rightarrow> rc2 \<noteq> 0 \<or> strip out2 = []
            | Failed e \<Rightarrow> False"
    by (auto simp add: cancelled_at_custom_def
        split: option.splits prod.splits proc.splits sum.splits)
  from b obtain rc2 out2 where
    e2: "ext w (trace s @ [Run args]) (inputbox_args cur_ip) = Exited rc2 out2"
    and c2: "rc2 \<noteq> 0 \<or> strip out2 = []"
    by (cases "ext w (trace s @ [Run args]) (inputbox_args cur_ip)") auto
  have e: "ext w (trace s) args = Exited rc out"
    using radiolist_stepD(4) [OF st] by simp
  have "pick_proxy w title cur s =
      (Inr None, s\<lparr>trace := trace s @ map Run [args, inputbox_args cur_ip]\<rparr>)"
    using e rc ip e2 c2
    by (auto simp add: pick_proxy_at_step [OF st] try_except_def pick_body_def bindM_def
        subprocess_run_def ret_def lift_def)
  then show ?thesis ..
qed

lemma pick_unmatched_tag:
  assumes "unmatched_tag w title cur (trace s)"
  shows "\<exists>runs. pick_proxy w title cur s = (Inr None, s\<lparr>trace := trace s @ map Run runs\<rparr>)"
proof -
  from assms obtain proxies args rc out where
    st: "radiolist_step w title cur (trace s) = Some (proxies, args, Exited rc out)"
    and rc: "rc = 0" "strip out \<noteq> str ''__custom__''"
    and un: "list_all (\<lambda>p. getitem p (str ''ip'') \<noteq> Inr (strip out)) proxies"
    by (auto simp add: unmatched_tag_def split: option.splits prod.splits proc.splits)
  have e: "ext w (trace s) args = Exited rc out"
    using radiolist_stepD(4) [OF st] by simp
  obtain es where "radio_entries cur proxies = Inr es"
    using radiolist_args_entries [OF radiolist_stepD(3) [OF st]] by blast
  then have f: "find_choice (strip out) proxies = Inr None"
    using un by (rule find_choice_none)
  have "pick_proxy w title cur s = (Inr None, s\<lparr>trace := trace s @ map Run [args]\<rparr>)"
    using e rc f
    by (simp add: pick_proxy_at_step [OF st] try_except_def pick_body_def bindM_def
        subprocess_run_def ret_def lift_def)
  then show ?thesis ..
qed

lemma change_proxy_None:
  "pick_proxy w (str ''Change System Proxy'') (proxy_selection s) s = (Inr None, s1) \<Longrightarrow>
   change_proxy w s = refresh w s1"
  by (simp add: change_proxy_def bindM_def ret_def)

lemma change_redsocks_proxy_None:
  "pick_proxy w (str ''Change Redsocks Proxy'') (redsocks_selection s) s = (Inr None, s1) \<Longrightarrow>
   change_redsocks_proxy w s = refresh w s1"
  by (simp add: change_redsocks_proxy_def bindM_def ret_def)

lemma no_change_proxy:
  assumes "pick_proxy w (str ''Change System Proxy'') (proxy_selection s) s =
      (Inr None, s\<lparr>trace := trace s @ map Run runs\<rparr>)"
  shows "fst (pick_proxy w (str ''Change System Proxy'') (proxy_selection s) s) = Inr None \<and>
     selections (snd (change_proxy w s)) = selections s \<and>
     notifications (trace (snd (change_proxy w s))) = notifications (trace s)"
  by (simp add: assms change_proxy_None [OF assms] refresh_frame selections_def)

lemma no_change_redsocks_proxy:
  assumes "pick_proxy w (str ''Change Redsocks Proxy'') (redsocks_selection s) s =
      (Inr None, s\<lparr>trace := trace s @ map Run runs\<rparr>)"
  shows "fst (pick_proxy w (str ''Change Redsocks Proxy'') (redsocks_selection s) s) = Inr None \<and>
     selections (snd (change_redsocks_proxy w s)) = selections s \<and>
     notifications (trace (snd (change_redsocks_proxy w s))) = notifications (trace s)"
  by (simp add: assms change_redsocks_proxy_None [OF assms] refresh_frame selections_def)

text \<open>
  C7. When the picker is cancelled, at the radio list (the dialog exits with a return
  code other than 0) or at the custom entry (the input box exits with a return code other
  than 0, or with blank input), \<open>_pick_proxy\<close> returns \<open>None\<close>, and the change
  action leaves both selections as they were and sends no notification. This holds for
  the system proxy and for redsocks.
\<close>

theorem picker_cancellation:
  "(cancelled_at_list w (str ''Change System Proxy'') (proxy_selection s) (trace s) \<or>
    cancelled_at_custom w (str ''Change System Proxy'') (proxy_selection s) (trace s) \<longrightarrow>
      fst (pick_proxy w (str ''Change System Proxy'') (proxy_selection s) s) = Inr None \<and>
      selections (snd (change_proxy w s)) = selections s \<and>
      notifications (trace (snd (change_proxy w s))) = notifications (trace s)) \<and>
   (cancelled_at_list w (str ''Change Redsocks Proxy'') (redsocks_selection s) (trace s) \<or>
    cancelled_at_custom w (str ''Change Redsocks Proxy'') (redsocks_selection s) (trace s) \<longrightarrow>
      fst (pick_proxy w (str ''Change Redsocks Proxy'') (redsocks_selection s) s) = Inr None \<and>
      selections (snd (change_redsocks_proxy w s)) = selections s \<and>
      notifications (trace (snd (change_redsocks_proxy w s))) = notifications (trace s))"
  using pick_cancelled_at_list pick_cancelled_at_custom no_change_proxy no_change_redsocks_proxy
  by meson

text \<open>
  C10. When the radio list returns a tag that is not the custom tag and is the address
  of no record of the catalog, \<open>_pick_proxy\<close> returns \<open>None\<close>: the change action
  installs no record and sends no notification.
\<close>

theorem unmatched_tag_no_change:
  "(unmatched_tag w (str ''Change System Proxy'') (proxy_selection s) (trace s) \<longrightarrow>
      fst (pick_proxy w (str ''Change System Proxy'') (proxy_selection s) s) = Inr None \<and>
      selections (snd (change_proxy w s)) = selections s \<and>
      notifications (trace (snd (change_proxy w s))) = notifications (trace s)) \<and>
   (unmatched_tag w (str ''Change Redsocks Proxy'') (redsocks_selection s) (trace s) \<longrightarrow>
      fst (pick_proxy w (str ''Change Redsocks Proxy'') (redsocks_selection s) s) = Inr None \<and>
      selections (snd (change_redsocks_proxy w s)) = selections s \<and>
      notifications (trace (snd (change_redsocks_proxy w s))) = notifications (trace s))"
  using pick_unmatched_tag no_change_proxy no_change_redsocks_proxy
  by meson

subsection \<open>Who writes the selections\<close>

lemma change_proxy_selections:
  "selections (snd (change_proxy w s)) = selections s \<or>
   (\<exists>r. fst (pick_proxy w (str ''Change System Proxy'') (proxy_selection s) s) = Inr (Some r) \<and>
        selections (snd (change_proxy w s)) = (r, redsocks_selection s))"
proof -
  obtain res s1 where p: "pick_proxy w (str ''Change System Proxy'') (proxy_selection s) s = (res, s1)"
    by (cases "pick_proxy w (str ''Change System Proxy'') (proxy_selection s) s")
  have k: "selections s1 = selections s"
    using keeps_selectionsD [OF keeps_pick_proxy, of w "str ''Change System Proxy''"
        "proxy_selection s" s] p by simp
  show ?thesis
  proof (cases res)
    case (Inl e)
    then show ?thesis
      using p k by (simp add: change_proxy_def bindM_def)
  next
    case (Inr opt)
    show ?thesis
    proof (cases opt)
      case None
      then show ?thesis
        using p k Inr by (simp add: change_proxy_None refresh_frame selections_def)
    next
      case (Some r)
      then show ?thesis
        using p k Inr
        by (auto simp add: change_proxy_def bindM_def lift_def notify_def ret_def refresh_frame
            selections_def split: sum.splits)
    qed
  qed
qed

lemma change_redsocks_proxy_selections:
  "selections (snd (change_redsocks_proxy w s)) = selections s \<or>
   (\<exists>r. fst (pick_proxy w (str ''Change Redsocks Proxy'') (redsocks_selection s) s) = Inr (Some r) \<and>
        selections (snd (change_redsocks_proxy w s)) = (proxy_selection s, r))"
proof -
  obtain res s1 where p: "pick_proxy w (str ''Change Redsocks Proxy'') (redsocks_selection s) s = (res, s1)"
    by (cases "pick_proxy w (str ''Change Redsocks Proxy'') (redsocks_selection s) s")
  have k: "selections s1 = selections s"
    using keeps_selectionsD [OF keeps_pick_proxy, of w "str ''Change Redsocks Proxy''"
        "redsocks_selection s" s] p by simp
  show ?thesis
  proof (cases res)
    case (Inl e)
    then show ?thesis
      using p k by (simp add: change_redsocks_proxy_def bindM_def)
  next
    case (Inr opt)
    show ?thesis
    proof (cases opt)
      case None
      then show ?thesis
        using p k Inr by (simp add: change_redsocks_proxy_None refresh_frame selections_def)
    next
      case (Some r)
      then show ?thesis
        using p k Inr
        by (auto simp add: change_redsocks_proxy_def bindM_def lift_def notify_def ret_def
            refresh_frame selections_def split: sum.splits)
    qed
  qed
qed

lemma keeps_render_icon: "keeps_selections (render_icon w)"
  by (simp add: keeps_selections_def render_icon_eq selections_def)

lemma keeps_tooltip: "keeps_selections (tooltip w)"
  by (simp add: keeps_selections_def tooltip_state selections_def)

text \<open>
  C9. The monitor loop, after any number of passes, and the refresh, the rendering and
  the tooltip it triggers leave both selections as they were. Of the menu actions only
  the two change actions can change a selection, each its own, and only to the record
  \<open>_pick_proxy\<close> returned.
\<close>

theorem selections_written_by_picker_only:
  "selections (monitor w n s) = selections s \<and>
   selections (snd (monitor_pass w s)) = selections s \<and>
   selections (snd (refresh w s)) = selections s \<and>
   selections (snd (render_icon w s)) = selections s \<and>
   selections (snd (tooltip w s)) = selections s \<and>
   (\<forall>a. selections (snd (menu w a s)) \<noteq> selections s \<longrightarrow>
      (a = ChangeProxy \<and>
       (\<exists>r. fst (pick_proxy w (str ''Change System Proxy'') (proxy_selection s) s) = Inr (Some r) \<and>
            selections (snd (menu w a s)) = (r, redsocks_selection s))) \<or>
      (a = ChangeRedsocksProxy \<and>
       (\<exists>r. fst (pick_proxy w (str ''Change Redsocks Proxy'') (redsocks_selection s) s) =
              Inr (Some r) \<and>
            selections (snd (menu w a s)) = (proxy_selection s, r))))"
proof -
  have m: "(a = ChangeProxy \<and>
       (\<exists>r. fst (pick_proxy w (str ''Change System Proxy'') (proxy_selection s) s) = Inr (Some r) \<and>
            selections (snd (menu w a s)) = (r, redsocks_selection s))) \<or>
      (a = ChangeRedsocksProxy \<and>
       (\<exists>r. fst (pick_proxy w (str ''Change Redsocks Proxy'') (redsocks_selection s) s) =
              Inr (Some r) \<and>
            selections (snd (menu w a s)) = (proxy_selection s, r)))"
    if c: "selections (snd (menu w a s)) \<noteq> selections s" for a
  proof (cases a)
    case EnableProxy
    then show ?thesis using c keeps_selectionsD [OF keeps_enable_proxy, of w s] by simp
  next
    case DisableProxy
    then show ?thesis using c keeps_selectionsD [OF keeps_disable_proxy, of w s] by simp
  next
    case ChangeProxy
    then show ?thesis using c change_proxy_selections [of w s] by simp
  next
    case EnableRedsocks
    then show ?thesis using c keeps_selectionsD [OF keeps_enable_redsocks, of w s] by simp
  next
    case DisableRedsocks
    then show ?thesis using c keeps_selectionsD [OF keeps_disable_redsocks, of w s] by simp
  next
    case ChangeRedsocksProxy
    then show ?thesis using c change_redsocks_proxy_selections [of w s] by simp
  next
    case Quit
    then show ?thesis using c keeps_selectionsD [OF keeps_quit, of s] by simp
  qed
  show ?thesis
    using m monitor_selections [of w n s] keeps_selectionsD [OF keeps_monitor_pass, of w s]
      keeps_selectionsD [OF keeps_basic(6), of w s] keeps_selectionsD [OF keeps_render_icon, of w s]
      keeps_selectionsD [OF keeps_tooltip, of w s]
    by blast
qed

subsection \<open>The picker in a concrete world\<close>

lemma str_eq_iff: "str a = str b \<longleftrightarrow> a = b"
proof -
  have "inj (of_char :: char \<Rightarrow> nat)"
    by (rule injI) simp
  then show ?thesis
    by (simp add: str_def inj_map_eq_map)
qed

lemma sel_AB:
  "proxy_selection state_AB = [(str ''name'', str ''A''), (str ''ip'', str ''10.0.0.1'')]"
  "redsocks_selection state_AB = [(str ''name'', str ''A''), (str ''ip'', str ''10.0.0.1'')]"
  by (simp_all add: state_AB_def)

lemma step_AB:
  "\<exists>args. radiolist_step (world_AB f) title
       [(str ''name'', str ''A''), (str ''ip'', str ''10.0.0.1'')] [] =
     Some (catalog_AB, args, f [] args)"
  by (simp add: radiolist_step_def load_proxies_AB radiolist_args_def catalog_AB_def
      getitem_def str_eq_iff)

lemma strip_AB:
  "strip (str ''__custom__'' @ [10]) = str ''__custom__''"
  "strip [10] = []"
  "strip (str ''10.9.9.9'' @ [10]) = str ''10.9.9.9''"
  "strip (str ''10.0.0.2'' @ [10]) = str ''10.0.0.2''"
  by (simp_all add: strip_def isspace_def str_def)

theorem picker_cancellation_witness:
  "cancelled_at_list (world_AB (\<lambda>tr args. Exited 1 [])) (str ''Change System Proxy'')
     (proxy_selection state_AB) (trace state_AB) \<and>
   fst (pick_proxy (world_AB (\<lambda>tr args. Exited 1 [])) (str ''Change System Proxy'')
     (proxy_selection state_AB) state_AB) = Inr None \<and>
   selections (snd (change_proxy (world_AB (\<lambda>tr args. Exited 1 [])) state_AB)) =
     selections state_AB \<and>
   notifications (trace (snd (change_proxy (world_AB (\<lambda>tr args. Exited 1 [])) state_AB))) = [] \<and>
   cancelled_at_custom
     (world_AB (\<lambda>tr args. if tr = [] then Exited 0 (str ''__custom__'' @ [10]) else Exited 0 [10]))
     (str ''Change Redsocks Proxy'') (redsocks_selection state_AB) (trace state_AB) \<and>
   fst (pick_proxy
     (world_AB (\<lambda>tr args. if tr = [] then Exited 0 (str ''__custom__'' @ [10]) else Exited 0 [10]))
     (str ''Change Redsocks Proxy'') (redsocks_selection state_AB) state_AB) = Inr None \<and>
   selections (snd (change_redsocks_proxy
     (world_AB (\<lambda>tr args. if tr = [] then Exited 0 (str ''__custom__'' @ [10]) else Exited 0 [10]))
     state_AB)) = selections state_AB \<and>
   notifications (trace (snd (change_redsocks_proxy
     (world_AB (\<lambda>tr args. if tr = [] then Exited 0 (str ''__custom__'' @ [10]) else Exited 0 [10]))
     state_AB))) = []"
proof -
  let ?w = "world_AB (\<lambda>tr args. Exited 1 [])"
  let ?v = "world_AB (\<lambda>tr args. if tr = [] then Exited 0 (str ''__custom__'' @ [10])
                                else Exited 0 [10])"
  obtain args where a: "radiolist_step ?w (str ''Change System Proxy'')
       [(str ''name'', str ''A''), (str ''ip'', str ''10.0.0.1'')] [] =
     Some (catalog_AB, args, Exited 1 [])"
    using step_AB [of "\<lambda>tr args. Exited 1 []" "str ''Change System Proxy''"] by blast
  have 1: "cancelled_at_list ?w (str ''Change System Proxy'') (proxy_selection state_AB)
      (trace state_AB)"
    by (simp add: cancelled_at_list_def sel_AB a)
  obtain args2 where b: "radiolist_step ?v (str ''Change Redsocks Proxy'')
       [(str ''name'', str ''A''), (str ''ip'', str ''10.0.0.1'')] [] =
     Some (catalog_AB, args2, Exited 0 (str ''__custom__'' @ [10]))"
    using step_AB [of "\<lambda>tr args. if tr = [] then Exited 0 (str ''__custom__'' @ [10])
        else Exited 0 [10]" "str ''Change Redsocks Proxy''"] by auto
  have 2: "cancelled_at_custom ?v (str ''Change Redsocks Proxy'') (redsocks_selection state_AB)
      (trace state_AB)"
    by (simp add: cancelled_at_custom_def sel_AB b strip_AB getitem_def str_eq_iff)
  show ?thesis
    using picker_cancellation [of ?w state_AB] picker_cancellation [of ?v state_AB] 1 2
    by simp
qed

theorem unmatched_tag_no_change_witness:
  "unmatched_tag (world_AB (\<lambda>tr args. Exited 0 (str ''10.9.9.9'' @ [10])))
     (str ''Change System Proxy'') (proxy_selection state_AB) (trace state_AB) \<and>
   fst (pick_proxy (world_AB (\<lambda>tr args. Exited 0 (str ''10.9.9.9'' @ [10])))
     (str ''Change System Proxy'') (proxy_selection state_AB) state_AB) = Inr None \<and>
   selections (snd (change_proxy (world_AB (\<lambda>tr args. Exited 0 (str ''10.9.9.9'' @ [10])))
     state_AB)) = selections state_AB \<and>
   notifications (trace (snd (change_proxy
     (world_AB (\<lambda>tr args. Exited 0 (str ''10.9.9.9'' @ [10]))) state_AB))) = [] \<and>
   unmatched_tag (world_AB (\<lambda>tr args. Exited 0 (str ''10.9.9.9'' @ [10])))
     (str ''Change Redsocks Proxy'') (redsocks_selection state_AB) (trace state_AB) \<and>
   selections (snd (change_redsocks_proxy
     (world_AB (\<lambda>tr args. Exited 0 (str ''10.9.9.9'' @ [10]))) state_AB)) = selections state_AB \<and>
   notifications (trace (snd (change_redsocks_proxy
     (world_AB (\<lambda>tr args. Exited 0 (str ''10.9.9.9'' @ [10]))) state_AB))) = []"
proof -
  let ?w = "world_AB (\<lambda>tr args. Exited 0 (str ''10.9.9.9'' @ [10]))"
  have u: "unmatched_tag ?w title (proxy_selection state_AB) (trace state_AB)" for title
  proof -
    obtain args where a: "radiolist_step ?w title
       [(str ''name'', str ''A''), (str ''ip'', str ''10.0.0.1'')] [] =
       Some (catalog_AB, args, Exited 0 (str ''10.9.9.9'' @ [10]))"
      using step_AB [of "\<lambda>tr args. Exited 0 (str ''10.9.9.9'' @ [10])" title] by blast
    show ?thesis
      by (simp add: unmatched_tag_def sel_AB a strip_AB catalog_AB_def getitem_def str_eq_iff)
  qed
  have r: "redsocks_selection state_AB = proxy_selection state_AB"
    by (simp add: sel_AB)
  show ?thesis
    using unmatched_tag_no_change [of ?w state_AB] u [of "str ''Change System Proxy''"]
      u [of "str ''Change Redsocks Proxy''"] r
    by simp
qed


theorem selections_written_by_picker_only_witness:
  "selections (snd (menu (world_AB (\<lambda>tr args. Exited 0 (str ''10.0.0.2'' @ [10]))) ChangeProxy
      state_AB)) \<noteq> selections state_AB \<and>
   (\<exists>r. fst (pick_proxy (world_AB (\<lambda>tr args. Exited 0 (str ''10.0.0.2'' @ [10])))
            (str ''Change System Proxy'') (proxy_selection state_AB) state_AB) = Inr (Some r) \<and>
        selections (snd (menu (world_AB (\<lambda>tr args. Exited 0 (str ''10.0.0.2'' @ [10])))
            ChangeProxy state_AB)) = (r, redsocks_selection state_AB)) \<and>
   selections (snd (menu (world_AB (\<lambda>tr args. Exited 0 (str ''10.0.0.2'' @ [10]))) ChangeProxy
      state_AB)) =
     ([(str ''name'', str ''B''), (str ''ip'', str ''10.0.0.2'')],
      [(str ''name'', str ''A''), (str ''ip'', str ''10.0.0.1'')]) \<and>
   selections (monitor (world_AB (\<lambda>tr args. Exited 0 (str ''10.0.0.2'' @ [10]))) 3 state_AB) =
     selections state_AB"
proof -
  let ?w = "world_AB (\<lambda>tr args. Exited 0 (str ''10.0.0.2'' @ [10]))"
  let ?B = "[(str ''name'', str ''B''), (str ''ip'', str ''10.0.0.2'')]"
  obtain args where a: "radiolist_step ?w (str ''Change System Proxy'')
       [(str ''name'', str ''A''), (str ''ip'', str ''10.0.0.1'')] [] =
     Some (catalog_AB, args, Exited 0 (str ''10.0.0.2'' @ [10]))"
    using step_AB [of "\<lambda>tr args. Exited 0 (str ''10.0.0.2'' @ [10])" "str ''Change System Proxy''"]
    by blast
  have a': "radiolist_step ?w (str ''Change System Proxy'') (proxy_selection state_AB)
      (trace state_AB) = Some (catalog_AB, args, Exited 0 (str ''10.0.0.2'' @ [10]))"
    using a by (simp add: sel_AB)
  have c: "str ''10.0.0.2'' \<noteq> str ''__custom__''"
    by (simp add: str_eq_iff)
  have p: "pick_proxy ?w (str ''Change System Proxy'') (proxy_selection state_AB) state_AB =
      (Inr (Some ?B), state_AB\<lparr>trace := [Run args]\<rparr>)"
    using c
    by (simp add: pick_proxy_at_step [OF a'] try_except_def pick_body_def bindM_def
        subprocess_run_def ret_def lift_def strip_AB catalog_AB_def getitem_def str_eq_iff)
  have s: "selections (snd (change_proxy ?w state_AB)) =
      (?B, [(str ''name'', str ''A''), (str ''ip'', str ''10.0.0.1'')])"
    using p
    by (simp add: sel_AB)
      (simp add: change_proxy_def bindM_def lift_def getitem_def str_eq_iff notify_def
        refresh_frame selections_def sel_AB)
  have sa: "selections state_AB =
      ([(str ''name'', str ''A''), (str ''ip'', str ''10.0.0.1'')],
       [(str ''name'', str ''A''), (str ''ip'', str ''10.0.0.1'')])"
    by (simp add: selections_def sel_AB)
  have n: "selections (snd (menu ?w ChangeProxy state_AB)) \<noteq> selections state_AB"
    by (simp add: s sa str_eq_iff)
  note t = selections_written_by_picker_only [of ?w 3 state_AB]
  have 1: "\<exists>r. fst (pick_proxy ?w (str ''Change System Proxy'') (proxy_selection state_AB)
            state_AB) = Inr (Some r) \<and>
        selections (snd (menu ?w ChangeProxy state_AB)) = (r, redsocks_selection state_AB)"
    using t n by blast
  have 2: "selections (monitor ?w 3 state_AB) = selections state_AB"
    using t by blast
  have 3: "selections (snd (menu ?w ChangeProxy state_AB)) =
      (?B, [(str ''name'', str ''A''), (str ''ip'', str ''10.0.0.1'')])"
    using s by simp
  show ?thesis
    by (intro conjI) (rule n, rule 1, rule 3, rule 2)
qed

end
